theory Spec2Isabelle
  imports Main
begin

section \<open>Strings and paths\<close>

text \<open>
  Strings are lists of 8-bit characters. \<open>upper\<close>, \<open>lower\<close> and \<open>strip\<close> are Python's
  \<^verbatim>\<open>str.upper\<close>, \<^verbatim>\<open>str.lower\<close> and \<^verbatim>\<open>str.strip\<close> on ASCII text: letters a-z and A-Z are
  mapped onto each other, every other character is kept, and the whitespace stripped is
  the ASCII whitespace of \<^verbatim>\<open>str.isspace\<close> (codes 9-13, 28-32).
\<close>

definition upper_char :: "char \<Rightarrow> char" where
  "upper_char c =
     (let n = (of_char c :: nat) in if 97 \<le> n \<and> n \<le> 122 then char_of (n - 32) else c)"

definition lower_char :: "char \<Rightarrow> char" where
  "lower_char c =
     (let n = (of_char c :: nat) in if 65 \<le> n \<and> n \<le> 90 then char_of (n + 32) else c)"

definition upper :: "string \<Rightarrow> string" where
  "upper s = map upper_char s"

definition lower :: "string \<Rightarrow> string" where
  "lower s = map lower_char s"

definition isspace :: "char \<Rightarrow> bool" where
  "isspace c = (let n = (of_char c :: nat) in (9 \<le> n \<and> n \<le> 13) \<or> (28 \<le> n \<and> n \<le> 32))"

definition strip :: "string \<Rightarrow> string" where
  "strip s = rev (dropWhile isspace (rev (dropWhile isspace s)))"

text \<open>\<^verbatim>\<open>s.split(sep)\<close> for a one-character separator.\<close>

fun split :: "char \<Rightarrow> string \<Rightarrow> string list" where
  "split sep [] = [[]]"
| "split sep (x # xs) =
     (if x = sep then [] # split sep xs
      else (case split sep xs of [] \<Rightarrow> [[x]] | w # ws \<Rightarrow> (x # w) # ws))"

text \<open>\<^verbatim>\<open>s.rfind(c)\<close>: the index of the last occurrence of \<open>c\<close>, or -1.\<close>

definition rfind :: "char \<Rightarrow> string \<Rightarrow> int" where
  "rfind c s =
     (if c \<in> set s then int (length s - 1 - length (takeWhile (\<lambda>x. x \<noteq> c) (rev s)))
      else - 1)"

text \<open>
  \<^verbatim>\<open>pathlib.Path\<close> in its POSIX flavour: a path is its root (\<^verbatim>\<open>''\<close>, \<^verbatim>\<open>'/'\<close> or \<^verbatim>\<open>'//'\<close>) and its
  components. \<open>Path\<close> is the constructor from a string, \<open>str_path\<close> is \<^verbatim>\<open>str(p)\<close>, and
  \<open>name\<close>, \<open>suffix\<close>, \<open>with_suffix\<close>, \<open>parent\<close> and \<open>joinpath\<close> (the operator \<^verbatim>\<open>/\<close>) are the
  properties and methods of the same names.
\<close>

datatype path = PurePath (root: string) (parts: "string list")

datatype exn =
    SystemExit int
  | KeyboardInterrupt
  | StopIteration
  | EOFError
  | FileNotFoundError
  | PermissionError
  | IsADirectoryError
  | OSError string
  | CalledProcessError "string list" int
  | ValueError string
  | RuntimeError string

text \<open>\<^verbatim>\<open>except Exception\<close> catches every class but the two that derive from
  \<^verbatim>\<open>BaseException\<close> only; \<^verbatim>\<open>except IOError\<close> (an alias of \<^verbatim>\<open>OSError\<close>) catches \<^verbatim>\<open>OSError\<close> and
  its subclasses; \<^verbatim>\<open>except subprocess.CalledProcessError\<close> catches that class.\<close>

fun is_Exception :: "exn \<Rightarrow> bool" where
  "is_Exception (SystemExit n) = False"
| "is_Exception KeyboardInterrupt = False"
| "is_Exception e = True"

fun is_IOError :: "exn \<Rightarrow> bool" where
  "is_IOError FileNotFoundError = True"
| "is_IOError PermissionError = True"
| "is_IOError IsADirectoryError = True"
| "is_IOError (OSError m) = True"
| "is_IOError e = False"

fun is_CalledProcessError :: "exn \<Rightarrow> bool" where
  "is_CalledProcessError (CalledProcessError cmd n) = True"
| "is_CalledProcessError e = False"

definition lstrip_sep :: "string \<Rightarrow> string" where
  "lstrip_sep s = dropWhile (\<lambda>c. c = CHR ''/'') s"

definition splitroot :: "string \<Rightarrow> string \<times> string" where
  "splitroot part =
     (if part \<noteq> [] \<and> hd part = CHR ''/'' then
        (let stripped_part = lstrip_sep part in
         if length part - length stripped_part = 2 then (''//'', stripped_part)
         else (''/'', stripped_part))
      else ('''', part))"

definition Path :: "string \<Rightarrow> path" where
  "Path s =
     (case splitroot s of
        (r, rel) \<Rightarrow> PurePath r (filter (\<lambda>x. x \<noteq> [] \<and> x \<noteq> ''.'') (split (CHR ''/'') rel)))"

fun join :: "string \<Rightarrow> string list \<Rightarrow> string" where
  "join sep [] = []"
| "join sep [x] = x"
| "join sep (x # y # ys) = x @ sep @ join sep (y # ys)"

definition str_path :: "path \<Rightarrow> string" where
  "str_path p =
     (let s = root p @ join ''/'' (parts p) in if s = [] then ''.'' else s)"

definition name :: "path \<Rightarrow> string" where
  "name p = (if parts p = [] then [] else last (parts p))"

definition suffix :: "path \<Rightarrow> string" where
  "suffix p =
     (let nm = name p; i = rfind (CHR ''.'') nm in
      if 0 < i \<and> i < int (length nm) - 1 then drop (nat i) nm else [])"

definition with_suffix :: "path \<Rightarrow> string \<Rightarrow> exn + path" where
  "with_suffix p sfx =
     (if CHR ''/'' \<in> set sfx then Inl (ValueError ''Invalid suffix'')
      else if (sfx \<noteq> [] \<and> hd sfx \<noteq> CHR ''.'') \<or> sfx = ''.'' then
        Inl (ValueError ''Invalid suffix'')
      else if name p = [] then Inl (ValueError ''has an empty name'')
      else
        (let old_suffix = suffix p;
             nm = (if old_suffix = [] then name p @ sfx
                   else take (length (name p) - length old_suffix) (name p) @ sfx)
         in Inr (PurePath (root p) (butlast (parts p) @ [nm]))))"

definition parent :: "path \<Rightarrow> path" where
  "parent p = (if parts p = [] then p else PurePath (root p) (butlast (parts p)))"

definition joinpath :: "path \<Rightarrow> string \<Rightarrow> path" where
  "joinpath p s =
     (let q = Path s in if root q \<noteq> [] then q else PurePath (root p) (parts p @ parts q))"

section \<open>The world outside the program\<close>

text \<open>
  The file system maps a path to what is there: a regular file with its bytes, a file
  that cannot be opened for reading, or a directory with the names of its immediate
  entries in the order in which the operating system enumerates them. A path that is
  not mapped does not exist.
\<close>

datatype node = File string | Unreadable | Directory "string list"

type_synonym filesystem = "path \<Rightarrow> node option"

subsection \<open>The configuration bundle of the transcription library\<close>

datatype TranscriptType = TXT | SRT | VTT

record Input =
  urls_or_paths :: "string list"
  skip_if_output_exist :: bool
  playlist_items :: string
  download_retries :: int
  verbose :: bool

record Whisper =
  model_name_or_path :: string
  task :: string
  language :: string
  use_faster_whisper :: bool
  beam_size :: int
  ct2_compute_type :: string

record Wit =
  wit_client_access_tokens :: "string list"
  max_cutting_duration :: int

record Output =
  min_words_per_segment :: int
  save_files_before_compact :: bool
  save_yt_dlp_responses :: bool
  output_sample :: int
  output_formats :: "TranscriptType list"
  output_dir :: string

text \<open>The four sections of the bundle: \<^verbatim>\<open>input\<close>, \<^verbatim>\<open>whisper\<close>, \<^verbatim>\<open>wit\<close> and \<^verbatim>\<open>output\<close>.\<close>

record Config =
  input_section :: Input
  whisper_section :: Whisper
  wit_section :: Wit
  output_section :: Output

subsection \<open>External collaborators\<close>

text \<open>
  \<open>run_process\<close> is the operating system running a command line to completion
  (the transcoder and the downloader): it either cannot start the program, or the
  process ends with a return code, and the file system may have changed.
  \<open>farrigh\<close> is the transcription pipeline, drained to its end: it finishes or raises,
  and the file system may have changed.
\<close>

datatype proc_outcome = CompletedProcess int | SpawnError string

record externals =
  run_process :: "string list \<Rightarrow> filesystem \<Rightarrow> proc_outcome \<times> filesystem"
  farrigh :: "Config \<Rightarrow> filesystem \<Rightarrow> exn option \<times> filesystem"

subsection \<open>State and observable events\<close>

text \<open>
  The trace records, in order, what the program does to the outside: lines printed,
  prompts shown by \<^verbatim>\<open>input\<close>, records written by \<^verbatim>\<open>logging.error\<close> (the message prefix
  and the exception formatted into it), commands run with their outcome, and the
  invocations of the transcription pipeline with the configuration handed over and
  the exception it raised, if any. \<open>Dispatch\<close> marks an entry into
  \<open>transcribe_file\<close> with its two arguments.
\<close>

datatype event =
    is_Print: Print string
  | is_Prompt: Prompt string
  | is_LogError: LogError string exn
  | is_Run: Run (run_command: "string list") (run_outcome: proc_outcome)
  | is_Farrigh: Farrigh (farrigh_config: Config) (farrigh_raised: "exn option")
  | is_Dispatch: Dispatch path string

record world =
  fs :: filesystem
  stdin :: "string list"
  trace :: "event list"

type_synonym 'a action = "world \<Rightarrow> (exn + 'a) \<times> world"

definition return :: "'a \<Rightarrow> 'a action" where
  "return x w = (Inr x, w)"

definition raise :: "exn \<Rightarrow> 'a action" where
  "raise e w = (Inl e, w)"

definition seq :: "'a action \<Rightarrow> ('a \<Rightarrow> 'b action) \<Rightarrow> 'b action" where
  "seq m f w = (case m w of (Inl e, w') \<Rightarrow> (Inl e, w') | (Inr x, w') \<Rightarrow> f x w')"

text \<open>\<^verbatim>\<open>try: m except C as e: h e\<close>, where \<open>catches\<close> decides membership in \<^verbatim>\<open>C\<close>.\<close>

definition try_except :: "'a action \<Rightarrow> (exn \<Rightarrow> bool) \<Rightarrow> (exn \<Rightarrow> 'a action) \<Rightarrow> 'a action" where
  "try_except m catches h w =
     (case m w of
        (Inl e, w') \<Rightarrow> if catches e then h e w' else (Inl e, w')
      | (Inr x, w') \<Rightarrow> (Inr x, w'))"

definition emit :: "event \<Rightarrow> unit action" where
  "emit ev w = (Inr (), w\<lparr>trace := trace w @ [ev]\<rparr>)"

definition print :: "string \<Rightarrow> unit action" where
  "print s = emit (Print s)"

definition logging_error :: "string \<Rightarrow> exn \<Rightarrow> unit action" where
  "logging_error prefix e = emit (LogError prefix e)"

definition sys_exit :: "int \<Rightarrow> 'a action" where
  "sys_exit n = raise (SystemExit n)"

text \<open>\<^verbatim>\<open>input(prompt)\<close>: shows the prompt and reads one line; end of input raises.\<close>

definition py_input :: "string \<Rightarrow> string action" where
  "py_input prompt w =
     (case stdin w of
        [] \<Rightarrow> (Inl EOFError, w\<lparr>trace := trace w @ [Prompt prompt]\<rparr>)
      | l # ls \<Rightarrow> (Inr l, w\<lparr>stdin := ls, trace := trace w @ [Prompt prompt]\<rparr>))"

text \<open>\<^verbatim>\<open>subprocess.run(command, check=True)\<close>.\<close>

definition subprocess_run :: "externals \<Rightarrow> string list \<Rightarrow> unit action" where
  "subprocess_run ext command w =
     (case run_process ext command (fs w) of
        (SpawnError m, fs') \<Rightarrow>
          (Inl (OSError m), w\<lparr>fs := fs', trace := trace w @ [Run command (SpawnError m)]\<rparr>)
      | (CompletedProcess rc, fs') \<Rightarrow>
          (if rc \<noteq> 0 then Inl (CalledProcessError command rc) else Inr (),
           w\<lparr>fs := fs', trace := trace w @ [Run command (CompletedProcess rc)]\<rparr>))"

text \<open>
  A path whose string form holds a NUL byte is never handed to the operating system:
  \<^verbatim>\<open>open\<close> raises \<^verbatim>\<open>ValueError\<close> (which is no \<^verbatim>\<open>OSError\<close>) for it, and \<^verbatim>\<open>Path.is_dir\<close> answers
  false.
\<close>

definition embedded_nul :: "path \<Rightarrow> bool" where
  "embedded_nul p = (CHR 0x00 \<in> set (str_path p))"

text \<open>\<^verbatim>\<open>open(file_path, 'rb')\<close> followed by \<^verbatim>\<open>read(4)\<close>; opening fails with \<^verbatim>\<open>ValueError\<close> on
  a path with a NUL byte, and with an \<^verbatim>\<open>OSError\<close> subclass on a missing path, an unreadable
  file and a directory.\<close>

definition open_read :: "filesystem \<Rightarrow> path \<Rightarrow> nat \<Rightarrow> exn + string" where
  "open_read f p n =
     (if embedded_nul p then Inl (ValueError ''embedded null byte'')
      else
        (case f p of
           None \<Rightarrow> Inl FileNotFoundError
         | Some Unreadable \<Rightarrow> Inl PermissionError
         | Some (Directory names) \<Rightarrow> Inl IsADirectoryError
         | Some (File content) \<Rightarrow> Inr (take n content)))"

text \<open>
  \<^verbatim>\<open>Path.is_dir\<close>, \<^verbatim>\<open>Path.glob('*')\<close> and \<^verbatim>\<open>Path.glob('downloads/*.wav')\<close>. Globbing lists
  the immediate entries of a directory once, in enumeration order, and yields nothing
  when the path is not a directory; \<^verbatim>\<open>*\<close> matches every name and \<^verbatim>\<open>*.wav\<close> the names that
  end in \<^verbatim>\<open>.wav\<close>. \<open>py_next\<close> is \<^verbatim>\<open>next\<close> on the resulting iterator.
\<close>

definition child :: "path \<Rightarrow> string \<Rightarrow> path" where
  "child p n = PurePath (root p) (parts p @ [n])"

definition is_dir :: "filesystem \<Rightarrow> path \<Rightarrow> bool" where
  "is_dir f p =
     (if embedded_nul p then False
      else (case f p of Some (Directory names) \<Rightarrow> True | _ \<Rightarrow> False))"

definition glob_star :: "filesystem \<Rightarrow> path \<Rightarrow> path list" where
  "glob_star f p = (case f p of Some (Directory names) \<Rightarrow> map (child p) names | _ \<Rightarrow> [])"

definition endswith :: "string \<Rightarrow> string \<Rightarrow> bool" where
  "endswith s sfx = (length sfx \<le> length s \<and> drop (length s - length sfx) s = sfx)"

definition glob_downloads_wav :: "filesystem \<Rightarrow> path \<Rightarrow> path list" where
  "glob_downloads_wav f p =
     (case f (child p ''downloads'') of
        Some (Directory names) \<Rightarrow>
          map (child (child p ''downloads'')) (filter (\<lambda>n. endswith n ''.wav'') names)
      | _ \<Rightarrow> [])"

definition py_next :: "'a list \<Rightarrow> 'a action" where
  "py_next xs = (case xs of [] \<Rightarrow> raise StopIteration | x # rest \<Rightarrow> return x)"

definition lift :: "exn + 'a \<Rightarrow> 'a action" where
  "lift r w = (r, w)"

text \<open>\<^verbatim>\<open>deque(farrigh(config), maxlen=0)\<close>: the pipeline is run to its end.\<close>

definition drain_farrigh :: "externals \<Rightarrow> Config \<Rightarrow> unit action" where
  "drain_farrigh ext config w =
     (case farrigh ext config (fs w) of
        (r, fs') \<Rightarrow>
          ((case r of None \<Rightarrow> Inr () | Some e \<Rightarrow> Inl e),
           w\<lparr>fs := fs', trace := trace w @ [Farrigh config r]\<rparr>))"

text \<open>\<^verbatim>\<open>for x in xs: body(x)\<close>.\<close>

primrec for_each :: "('a \<Rightarrow> unit action) \<Rightarrow> 'a list \<Rightarrow> unit action" where
  "for_each body [] = return ()"
| "for_each body (x # xs) = seq (body x) (\<lambda>_. for_each body xs)"

section \<open>The program\<close>

text \<open>
  The credential dictionary, built from the environment (\<^verbatim>\<open>os.getenv\<close> gives \<open>None\<close> for
  a variable that is not set). \<open>dict_get\<close> is \<^verbatim>\<open>dict.get\<close>, whose result is \<open>None\<close> for a
  missing key, and \<open>truthy\<close> is the truth value Python gives such a result: false for
  \<open>None\<close> and for the empty string.
\<close>

definition LANGUAGE_API_KEYS :: "(string \<Rightarrow> string option) \<Rightarrow> (string \<times> string option) list" where
  "LANGUAGE_API_KEYS environ =
     [(''EN'', environ ''WIT_API_KEY_ENGLISH''),
      (''AR'', environ ''WIT_API_KEY_ARABIC''),
      (''FR'', environ ''WIT_API_KEY_FRENCH''),
      (''JA'', environ ''WIT_API_KEY_JAPANESE'')]"

definition dict_get :: "(string \<times> string option) list \<Rightarrow> string \<Rightarrow> string option" where
  "dict_get d k = (case map_of d k of None \<Rightarrow> None | Some v \<Rightarrow> v)"

definition truthy :: "string option \<Rightarrow> bool" where
  "truthy v = (case v of None \<Rightarrow> False | Some s \<Rightarrow> s \<noteq> [])"

definition download_youtube_audio :: "externals \<Rightarrow> path \<Rightarrow> string \<Rightarrow> path action" where
  "download_youtube_audio ext file_dunder youtube_url =
     (let output_path = joinpath (joinpath (parent file_dunder) ''downloads'') ''%(id)s.%(ext)s'';
          command = [''yt-dlp'', ''-x'', ''--audio-format'', ''wav'', ''-o'',
                     str_path output_path, youtube_url]
      in try_except
           (seq (subprocess_run ext command) (\<lambda>_.
            seq (\<lambda>w. py_next (glob_downloads_wav (fs w) (parent file_dunder)) w) (\<lambda>audio_file.
            return audio_file)))
           is_CalledProcessError
           (\<lambda>e. seq (logging_error ''Error downloading YouTube audio: '' e) (\<lambda>_.
                 seq (print ''Error downloading YouTube audio. Check the logs for more information.'') (\<lambda>_.
                 sys_exit 1))))"

definition convert_video_to_audio :: "externals \<Rightarrow> path \<Rightarrow> path action" where
  "convert_video_to_audio ext video_path =
     seq (lift (with_suffix video_path ''.wav'')) (\<lambda>audio_output_path.
       (let command = [''ffmpeg'', ''-i'', str_path video_path, ''-vn'', ''-acodec'', ''pcm_s16le'',
                       ''-ar'', ''44100'', ''-ac'', ''2'', str_path audio_output_path]
        in try_except
             (seq (subprocess_run ext command) (\<lambda>_.
              seq (print (''Video converted to audio: '' @ str_path audio_output_path)) (\<lambda>_.
              return audio_output_path)))
             is_CalledProcessError
             (\<lambda>e. seq (logging_error ''Error converting video to audio: '' e) (\<lambda>_.
                   seq (print ''Error converting video to audio. Check the logs for more information.'') (\<lambda>_.
                   sys_exit 1)))))"

definition convert_mp3_to_wav :: "externals \<Rightarrow> path \<Rightarrow> path action" where
  "convert_mp3_to_wav ext mp3_path =
     seq (lift (with_suffix mp3_path ''.wav'')) (\<lambda>wav_output_path.
       (let command = [''ffmpeg'', ''-i'', str_path mp3_path, str_path wav_output_path]
        in try_except
             (seq (subprocess_run ext command) (\<lambda>_.
              seq (print (''MP3 converted to WAV: '' @ str_path wav_output_path)) (\<lambda>_.
              return wav_output_path)))
             is_CalledProcessError
             (\<lambda>e. seq (logging_error ''Error converting MP3 to WAV: '' e) (\<lambda>_.
                   seq (print ''Error converting MP3 to WAV. Check the logs for more information.'') (\<lambda>_.
                   sys_exit 1)))))"

definition is_wav_file :: "path \<Rightarrow> bool action" where
  "is_wav_file file_path =
     try_except
       (\<lambda>w. case open_read (fs w) file_path 4 of
              Inl e \<Rightarrow> (Inl e, w)
            | Inr bytes \<Rightarrow> (Inr (bytes = ''RIFF''), w))
       is_IOError
       (\<lambda>e. return False)"

text \<open>The configuration that \<open>transcribe_file\<close> assembles inside its \<^verbatim>\<open>try\<close> block.\<close>

definition make_config :: "path \<Rightarrow> string \<Rightarrow> string \<Rightarrow> Config" where
  "make_config file_path language_sign wit_api_key =
     (let input_config = \<lparr>
            urls_or_paths = [str_path file_path],
            skip_if_output_exist = False,
            playlist_items = [],
            download_retries = 3,
            verbose = False\<rparr>;
          whisper_config = \<lparr>
            model_name_or_path = ''path/to/your/model'',
            task = ''transcribe'',
            language = language_sign,
            use_faster_whisper = False,
            beam_size = 0,
            ct2_compute_type = []\<rparr>;
          wit_config = \<lparr>
            wit_client_access_tokens = [wit_api_key],
            max_cutting_duration = 5\<rparr>;
          output_config = \<lparr>
            min_words_per_segment = 1,
            save_files_before_compact = False,
            save_yt_dlp_responses = False,
            output_sample = 0,
            output_formats = [TXT, SRT],
            output_dir = str_path (parent file_path)\<rparr>
      in \<lparr>input_section = input_config,
          whisper_section = whisper_config,
          wit_section = wit_config,
          output_section = output_config\<rparr>)"

text \<open>In \<open>transcribe_file\<close> the test \<^verbatim>\<open>if not wit_api_key\<close> is the case distinction on the
  looked-up value: \<open>None\<close> and the empty string are the two falsy values.\<close>

definition transcribe_file ::
  "externals \<Rightarrow> (string \<times> string option) list \<Rightarrow> path \<Rightarrow> string \<Rightarrow> unit action" where
  "transcribe_file ext keys file_path language_sign =
     seq (emit (Dispatch file_path language_sign)) (\<lambda>_.
     seq (is_wav_file file_path) (\<lambda>wav.
       if \<not> wav then
         print (''Skipping file '' @ str_path file_path @ '' as it is not in WAV format.'')
       else
         (case dict_get keys (upper language_sign) of
            None \<Rightarrow> print (''API key not found for language: '' @ language_sign)
          | Some wit_api_key \<Rightarrow>
              if wit_api_key = [] then
                print (''API key not found for language: '' @ language_sign)
              else
                try_except
                  (let config = make_config file_path language_sign wit_api_key in
                   seq (print (''Transcribing file: '' @ str_path file_path)) (\<lambda>_.
                   seq (drain_farrigh ext config) (\<lambda>_.
                   print ''Transcription completed. Check the output directory for the generated files.'')))
                  is_Exception
                  (\<lambda>e. seq (logging_error ''Error during transcription: '' e) (\<lambda>_.
                        print ''Error during transcription. Check the logs for more information.'')))))"

text \<open>The body of the loop over the entries of a directory.\<close>

definition directory_entry ::
  "externals \<Rightarrow> (string \<times> string option) list \<Rightarrow> path \<Rightarrow> unit action" where
  "directory_entry ext keys file =
     (if lower (suffix file) = ''.wav'' then
        seq (py_input (''Enter the language sign for '' @ name file @ '' (e.g., EN, AR, FR, JA): '')) (\<lambda>language_sign.
        transcribe_file ext keys file language_sign)
      else if lower (suffix file) = ''.mp3'' then
        seq (convert_mp3_to_wav ext file) (\<lambda>wav_file.
        seq (py_input (''Enter the language sign for '' @ name file @ '' (e.g., EN, AR, FR, JA): '')) (\<lambda>language_sign.
        transcribe_file ext keys wav_file language_sign))
      else if lower (suffix file) \<in> set [''.mp4'', ''.mkv'', ''.avi''] then
        seq (convert_video_to_audio ext file) (\<lambda>audio_file.
        seq (py_input (''Enter the language sign for '' @ name file @ '' (e.g., EN, AR, FR, JA): '')) (\<lambda>language_sign.
        transcribe_file ext keys audio_file language_sign))
      else return ())"

text \<open>The branch of \<open>main\<close> for a local path that is not a directory.\<close>

definition single_file ::
  "externals \<Rightarrow> (string \<times> string option) list \<Rightarrow> path \<Rightarrow> unit action" where
  "single_file ext keys file_path0 =
     seq (if lower (suffix file_path0) = ''.mp3'' then convert_mp3_to_wav ext file_path0
          else if lower (suffix file_path0) \<in> set [''.mp4'', ''.mkv'', ''.avi''] then
            convert_video_to_audio ext file_path0
          else return file_path0) (\<lambda>file_path.
     seq (py_input ''Enter the language sign (e.g., EN, AR, FR): '') (\<lambda>language_sign.
     transcribe_file ext keys file_path language_sign))"

definition main :: "externals \<Rightarrow> (string \<times> string option) list \<Rightarrow> path \<Rightarrow> unit action" where
  "main ext keys file_dunder =
     seq (py_input ''Do you want to transcribe a YouTube video (Y) or a local file (L)? [Y/L]: '') (\<lambda>line.
       (let choice = upper (strip line) in
        if choice = ''Y'' then
          seq (py_input ''Enter the YouTube video link: '') (\<lambda>youtube_url.
          seq (py_input ''Enter the language sign (e.g., EN, AR, FR, JA): '') (\<lambda>language_sign.
          seq (download_youtube_audio ext file_dunder youtube_url) (\<lambda>audio_file.
          transcribe_file ext keys audio_file language_sign)))
        else if choice = ''L'' then
          seq (py_input ''Enter the path to the local file or directory: '') (\<lambda>s.
            (let file_path = Path s in
             (\<lambda>w. if is_dir (fs w) file_path then
                     for_each (directory_entry ext keys) (glob_star (fs w) file_path) w
                   else single_file ext keys file_path w)))
        else
          seq (print ''Invalid choice. Exiting.'') (\<lambda>_. sys_exit 1)))"

text \<open>
  The module as it runs as a script: the credential dictionary is built, the start-up
  check exits when no credential is configured, and otherwise \<open>main\<close> runs.
  \<open>environ\<close> is the environment after the \<^verbatim>\<open>.env\<close> file has been loaded and \<open>file_dunder\<close> the
  path of the script (\<^verbatim>\<open>__file__\<close>).
\<close>

definition program :: "externals \<Rightarrow> (string \<Rightarrow> string option) \<Rightarrow> path \<Rightarrow> unit action" where
  "program ext environ file_dunder =
     (let keys = LANGUAGE_API_KEYS environ in
      if \<not> list_ex truthy (map snd keys) then
        seq (print ''Error: At least one Wit.ai API key must be provided in the .env file.'') (\<lambda>_.
        sys_exit 1)
      else main ext keys file_dunder)"

section \<open>Auxiliary notions for the properties\<close>

text \<open>What the format probe computes from the file system.\<close>

definition probe :: "filesystem \<Rightarrow> path \<Rightarrow> bool" where
  "probe f p = (case f p of Some (File content) \<Rightarrow> take 4 content = ''RIFF'' | _ \<Rightarrow> False)"

text \<open>The recognized language codes with the environment variable of each.\<close>

definition recognized_codes :: "(string \<times> string) list" where
  "recognized_codes =
     [(''EN'', ''WIT_API_KEY_ENGLISH''), (''AR'', ''WIT_API_KEY_ARABIC''),
      (''FR'', ''WIT_API_KEY_FRENCH''), (''JA'', ''WIT_API_KEY_JAPANESE'')]"

subsection \<open>Failed runs of external processes\<close>

text \<open>
  A run has failed when the process ended with a return code other than zero.
  \<open>failure_reports\<close> lists, for the downloader and the two transcoder calls, the prefix
  written to the log and the message printed. \<open>fatal r evs\<close> says that the events \<open>evs\<close>
  end with a failed run, its log record and its message, that no run failed before,
  and that the result \<open>r\<close> is an exit with status 1. An action is \<open>quiet\<close> when none of
  the events it adds is a failed run, and \<open>sound\<close> when the events it adds are free of
  failed runs or fatal.
\<close>

definition failed_run :: "event \<Rightarrow> bool" where
  "failed_run ev = (case ev of Run cmd (CompletedProcess rc) \<Rightarrow> rc \<noteq> 0 | _ \<Rightarrow> False)"

definition failure_reports :: "(string \<times> string) list" where
  "failure_reports =
     [(''Error downloading YouTube audio: '',
       ''Error downloading YouTube audio. Check the logs for more information.''),
      (''Error converting video to audio: '',
       ''Error converting video to audio. Check the logs for more information.''),
      (''Error converting MP3 to WAV: '',
       ''Error converting MP3 to WAV. Check the logs for more information.'')]"

definition fatal :: "exn + 'a \<Rightarrow> event list \<Rightarrow> bool" where
  "fatal r evs =
     (r = Inl (SystemExit 1) \<and>
      (\<exists>pre cmd rc prefix msg.
         evs = pre @ [Run cmd (CompletedProcess rc),
                      LogError prefix (CalledProcessError cmd rc), Print msg]
         \<and> rc \<noteq> 0 \<and> (\<forall>e \<in> set pre. \<not> failed_run e)
         \<and> (prefix, msg) \<in> set failure_reports))"

definition quiet :: "'a action \<Rightarrow> bool" where
  "quiet m =
     (\<forall>w r w'. m w = (r, w') \<longrightarrow>
        (\<exists>evs. trace w' = trace w @ evs \<and> (\<forall>e \<in> set evs. \<not> failed_run e)))"

definition sound :: "'a action \<Rightarrow> bool" where
  "sound m =
     (\<forall>w r w'. m w = (r, w') \<longrightarrow>
        (\<exists>evs. trace w' = trace w @ evs \<and> ((\<forall>e \<in> set evs. \<not> failed_run e) \<or> fatal r evs)))"

subsection \<open>Classification of directory entries\<close>

text \<open>
  An entry is \<open>convertible\<close> when its lower-cased suffix is that of an MP3 or a video
  file, and \<open>dispatchable\<close> when it is convertible or its lower-cased suffix is \<^verbatim>\<open>.wav\<close>.
  \<open>wav_sibling\<close> is the path with the suffix replaced by \<^verbatim>\<open>.wav\<close>, \<open>conversion_command\<close>
  the transcoder command line for a convertible entry, \<open>dispatch_target\<close> the path
  handed to the dispatcher, and \<open>language_prompt\<close> the prompt shown for the entry.
\<close>

definition convertible :: "path \<Rightarrow> bool" where
  "convertible f =
     (lower (suffix f) = ''.mp3'' \<or> lower (suffix f) \<in> set [''.mp4'', ''.mkv'', ''.avi''])"

definition dispatchable :: "path \<Rightarrow> bool" where
  "dispatchable f = (lower (suffix f) = ''.wav'' \<or> convertible f)"

definition wav_sibling :: "path \<Rightarrow> path" where
  "wav_sibling f = (case with_suffix f ''.wav'' of Inr q \<Rightarrow> q | Inl e \<Rightarrow> f)"

definition conversion_command :: "path \<Rightarrow> string list" where
  "conversion_command f =
     (if lower (suffix f) = ''.mp3'' then
        [''ffmpeg'', ''-i'', str_path f, str_path (wav_sibling f)]
      else
        [''ffmpeg'', ''-i'', str_path f, ''-vn'', ''-acodec'', ''pcm_s16le'',
         ''-ar'', ''44100'', ''-ac'', ''2'', str_path (wav_sibling f)])"

definition dispatch_target :: "path \<Rightarrow> path" where
  "dispatch_target f = (if lower (suffix f) = ''.wav'' then f else wav_sibling f)"

definition language_prompt :: "path \<Rightarrow> string" where
  "language_prompt f = ''Enter the language sign for '' @ name f @ '' (e.g., EN, AR, FR, JA): ''"

text \<open>What the loop does for one dispatchable entry and the line typed for it, as far as
  conversions, prompts and dispatches go, in the order in which they happen.\<close>

definition entry_steps :: "path \<Rightarrow> string \<Rightarrow> event list" where
  "entry_steps f l =
     (if convertible f then [Run (conversion_command f) (CompletedProcess 0)] else []) @
     [Prompt (language_prompt f), Dispatch (dispatch_target f) l]"

subsection \<open>Concrete worlds for the instances\<close>

definition example_fs :: filesystem where
  "example_fs =
     [PurePath [] [''d''] \<mapsto> Directory [''a.wav'', ''b.mp3'', ''c.mkv''],
      PurePath [] [''d'', ''a.wav''] \<mapsto> File ''RIFF0000WAVEfmt'',
      PurePath [] [''d'', ''b.mp3''] \<mapsto> File ''ID3'',
      PurePath [] [''d'', ''c.mkv''] \<mapsto> File ''matroska'',
      PurePath [] [''audio.dat''] \<mapsto> File ''RIFF0000WAVEfmt'']"

definition example_environ :: "string \<Rightarrow> string option" where
  "example_environ = [''WIT_API_KEY_ENGLISH'' \<mapsto> ''token-en'']"

text \<open>An environment in which the only variable set of the four is empty.\<close>

definition unconfigured_environ :: "string \<Rightarrow> string option" where
  "unconfigured_environ = [''WIT_API_KEY_ARABIC'' \<mapsto> []]"

text \<open>A path with a NUL byte in its name.\<close>

definition nul_path :: path where
  "nul_path = PurePath [] [''a'' @ [CHR 0x00] @ ''b.wav'']"

definition example_script :: path where
  "example_script = PurePath ''/'' [''opt'', ''transcribe.py'']"

text \<open>A transcoder that writes a WAV file at its last argument, and a pipeline that
  finishes; a pipeline that raises; a transcoder that fails.\<close>

definition tools_ok :: externals where
  "tools_ok =
     \<lparr>run_process = (\<lambda>cmd f. (CompletedProcess 0, f(Path (last cmd) \<mapsto> File ''RIFF0000WAVEfmt''))),
      farrigh = (\<lambda>cfg f. (None, f))\<rparr>"

definition tools_pipeline_raises :: externals where
  "tools_pipeline_raises =
     \<lparr>run_process = (\<lambda>cmd f. (CompletedProcess 0, f)),
      farrigh = (\<lambda>cfg f. (Some (RuntimeError ''service unavailable''), f))\<rparr>"

text \<open>A transcoder that writes a WAV file with a pipeline that raises an error, and
  a pipeline that exits the interpreter.\<close>

definition tools_pipeline_fails :: externals where
  "tools_pipeline_fails =
     \<lparr>run_process = (\<lambda>cmd f. (CompletedProcess 0, f(Path (last cmd) \<mapsto> File ''RIFF0000WAVEfmt''))),
      farrigh = (\<lambda>cfg f. (Some (RuntimeError ''service unavailable''), f))\<rparr>"

definition tools_pipeline_exits :: externals where
  "tools_pipeline_exits =
     \<lparr>run_process = (\<lambda>cmd f. (CompletedProcess 0, f(Path (last cmd) \<mapsto> File ''RIFF0000WAVEfmt''))),
      farrigh = (\<lambda>cfg f. (Some (SystemExit 3), f))\<rparr>"

definition tools_process_fails :: externals where
  "tools_process_fails =
     \<lparr>run_process = (\<lambda>cmd f. (CompletedProcess 1, f)),
      farrigh = (\<lambda>cfg f. (None, f))\<rparr>"

section \<open>Properties\<close>

lemmas action_defs =
  seq_def return_def raise_def try_except_def emit_def print_def logging_error_def
  sys_exit_def lift_def

subsection \<open>The format probe\<close>

lemma is_wav_file_probe:
  "is_wav_file p w =
     (if embedded_nul p then Inl (ValueError ''embedded null byte'') else Inr (probe (fs w) p), w)"
  by (simp add: is_wav_file_def try_except_def open_read_def return_def probe_def
           split: option.splits node.splits)

lemma accepted_iff: "fst (is_wav_file p w) = Inr True \<longleftrightarrow> \<not> embedded_nul p \<and> probe (fs w) p"
  by (simp add: is_wav_file_probe)

lemma rejected_iff: "fst (is_wav_file p w) = Inr False \<longleftrightarrow> \<not> embedded_nul p \<and> \<not> probe (fs w) p"
  by (simp add: is_wav_file_probe)

text \<open>
  C5, as the program behaves. For a path without a NUL byte: a file whose first four
  bytes are exactly \<open>RIFF\<close> is probed as WAV, and every other path - a file with other
  or fewer bytes, an empty file, a missing path, a file that cannot be read, a
  directory - is probed as not WAV; the probe returns false there, it does not raise,
  and it leaves the world as it found it.
\<close>

theorem is_wav_file_spec:
  assumes "\<not> embedded_nul p"
  shows "is_wav_file p w =
     (Inr (case fs w p of Some (File content) \<Rightarrow> take 4 content = ''RIFF'' | _ \<Rightarrow> False), w)"
  using assms
  by (simp add: is_wav_file_def try_except_def open_read_def return_def
           split: option.splits node.splits)

theorem is_wav_file_spec_witness:
  "\<not> embedded_nul (PurePath [] [''d'', ''a.wav''])
   \<and> \<not> embedded_nul (PurePath [] [''d'', ''b.mp3''])
   \<and> \<not> embedded_nul (PurePath [] [''d''])
   \<and> \<not> embedded_nul (PurePath [] [''notes.txt''])
   \<and> fst (is_wav_file (PurePath [] [''d'', ''a.wav'']) \<lparr>fs = example_fs, stdin = [], trace = []\<rparr>)
        = Inr True
   \<and> fst (is_wav_file (PurePath [] [''d'', ''b.mp3'']) \<lparr>fs = example_fs, stdin = [], trace = []\<rparr>)
        = Inr False
   \<and> fst (is_wav_file (PurePath [] [''d'']) \<lparr>fs = example_fs, stdin = [], trace = []\<rparr>)
        = Inr False
   \<and> fst (is_wav_file (PurePath [] [''notes.txt'']) \<lparr>fs = example_fs, stdin = [], trace = []\<rparr>)
        = Inr False"
proof -
  let ?w = "\<lparr>fs = example_fs, stdin = [], trace = []\<rparr>"
  have h: "\<not> embedded_nul (PurePath [] [''d'', ''a.wav''])"
    "\<not> embedded_nul (PurePath [] [''d'', ''b.mp3''])"
    "\<not> embedded_nul (PurePath [] [''d''])"
    "\<not> embedded_nul (PurePath [] [''notes.txt''])"
    by code_simp+
  have c: "example_fs (PurePath [] [''d'', ''a.wav'']) = Some (File ''RIFF0000WAVEfmt'')"
    "example_fs (PurePath [] [''d'', ''b.mp3'']) = Some (File ''ID3'')"
    "example_fs (PurePath [] [''d'']) = Some (Directory [''a.wav'', ''b.mp3'', ''c.mkv''])"
    "example_fs (PurePath [] [''notes.txt'']) = None"
    by code_simp+
  from is_wav_file_spec [OF h(1), of ?w] is_wav_file_spec [OF h(2), of ?w]
    is_wav_file_spec [OF h(3), of ?w] is_wav_file_spec [OF h(4), of ?w] h c
  show ?thesis by simp
qed

text \<open>
  C5 as it is worded lets the probe return false for every path that cannot be
  opened. For a path with a NUL byte \<^verbatim>\<open>open\<close> raises \<^verbatim>\<open>ValueError\<close>, which the handler for
  \<^verbatim>\<open>IOError\<close> does not catch: the probe raises.
\<close>

theorem is_wav_file_raises_counterexample:
  "fst (is_wav_file nul_path \<lparr>fs = example_fs, stdin = [], trace = []\<rparr>) =
     Inl (ValueError ''embedded null byte'')"
  by code_simp

subsection \<open>The three ways through the dispatcher\<close>


lemma transcribe_file_raises:
  "embedded_nul p \<Longrightarrow>
   transcribe_file ext keys p ls w =
     (Inl (ValueError ''embedded null byte''), w\<lparr>trace := trace w @ [Dispatch p ls]\<rparr>)"
  by (simp add: transcribe_file_def action_defs is_wav_file_probe)

lemma transcribe_file_skip:
  "fst (is_wav_file p w) = Inr False \<Longrightarrow>
   transcribe_file ext keys p ls w =
     (Inr (), w\<lparr>trace := trace w @
        [Dispatch p ls,
         Print (''Skipping file '' @ str_path p @ '' as it is not in WAV format.'')]\<rparr>)"
  by (simp add: rejected_iff) (simp add: transcribe_file_def action_defs is_wav_file_probe)

lemma transcribe_file_no_key:
  "fst (is_wav_file p w) = Inr True \<Longrightarrow> \<not> truthy (dict_get keys (upper ls)) \<Longrightarrow>
   transcribe_file ext keys p ls w =
     (Inr (), w\<lparr>trace := trace w @
        [Dispatch p ls, Print (''API key not found for language: '' @ ls)]\<rparr>)"
  by (simp add: accepted_iff)
     (simp add: transcribe_file_def action_defs is_wav_file_probe truthy_def
           split: option.splits)

lemma transcribe_file_run:
  "fst (is_wav_file p w) = Inr True \<Longrightarrow> dict_get keys (upper ls) = Some k \<Longrightarrow> k \<noteq> [] \<Longrightarrow>
   farrigh ext (make_config p ls k) (fs w) = (r, f') \<Longrightarrow>
   transcribe_file ext keys p ls w =
     (case r of
        None \<Rightarrow>
          (Inr (), w\<lparr>fs := f', trace := trace w @
             [Dispatch p ls, Print (''Transcribing file: '' @ str_path p),
              Farrigh (make_config p ls k) None,
              Print ''Transcription completed. Check the output directory for the generated files.'']\<rparr>)
      | Some e \<Rightarrow>
          if is_Exception e then
            (Inr (), w\<lparr>fs := f', trace := trace w @
               [Dispatch p ls, Print (''Transcribing file: '' @ str_path p),
                Farrigh (make_config p ls k) (Some e),
                LogError ''Error during transcription: '' e,
                Print ''Error during transcription. Check the logs for more information.'']\<rparr>)
          else
            (Inl e, w\<lparr>fs := f', trace := trace w @
               [Dispatch p ls, Print (''Transcribing file: '' @ str_path p),
                Farrigh (make_config p ls k) (Some e)]\<rparr>))"
  by (simp add: accepted_iff)
     (simp add: transcribe_file_def action_defs is_wav_file_probe drain_farrigh_def Let_def
           split: option.splits)

lemma for_each_Cons_returns:
  "body x w = (Inr (), w') \<Longrightarrow> for_each body (x # xs) w = for_each body xs w'"
  by (simp add: seq_def)

text \<open>
  C4, as the program behaves. When the format probe returns false for the path,
  \<open>transcribe_file\<close> returns normally after printing that the file is skipped: the
  transcription pipeline is not invoked, and the file system and the pending input are
  what they were.
\<close>

theorem transcribe_file_not_wav:
  assumes "fst (is_wav_file p w) = Inr False"
  shows "transcribe_file ext keys p ls w =
           (Inr (), w\<lparr>trace := trace w @
              [Dispatch p ls,
               Print (''Skipping file '' @ str_path p @ '' as it is not in WAV format.'')]\<rparr>)
         \<and> fs (snd (transcribe_file ext keys p ls w)) = fs w
         \<and> filter is_Farrigh (trace (snd (transcribe_file ext keys p ls w))) =
             filter is_Farrigh (trace w)"
  by (simp add: transcribe_file_skip [OF assms])

theorem transcribe_file_not_wav_witness:
  "fst (is_wav_file (PurePath [] [''d'', ''b.mp3'']) \<lparr>fs = example_fs, stdin = [], trace = []\<rparr>)
     = Inr False
   \<and> fst (transcribe_file tools_ok (LANGUAGE_API_KEYS example_environ)
            (PurePath [] [''d'', ''b.mp3'']) ''EN'' \<lparr>fs = example_fs, stdin = [], trace = []\<rparr>) = Inr ()
   \<and> trace (snd (transcribe_file tools_ok (LANGUAGE_API_KEYS example_environ)
            (PurePath [] [''d'', ''b.mp3'']) ''EN'' \<lparr>fs = example_fs, stdin = [], trace = []\<rparr>)) =
       [Dispatch (PurePath [] [''d'', ''b.mp3'']) ''EN'',
        Print ''Skipping file d/b.mp3 as it is not in WAV format.'']"
proof -
  have h: "fst (is_wav_file (PurePath [] [''d'', ''b.mp3''])
             \<lparr>fs = example_fs, stdin = [], trace = []\<rparr>) = Inr False"
    by code_simp
  have s: "str_path (PurePath [] [''d'', ''b.mp3'']) = ''d/b.mp3''"
    by code_simp
  from transcribe_file_not_wav [OF h] show ?thesis
    using h s by simp
qed

text \<open>
  C4 as it is worded covers every path that the probe does not classify as WAV. For a
  path with a NUL byte the probe classifies nothing: it raises \<^verbatim>\<open>ValueError\<close>, outside any
  \<^verbatim>\<open>try\<close> block of \<open>transcribe_file\<close>, which therefore raises as well instead of printing
  the skip message and returning.
\<close>

theorem transcribe_file_raises_counterexample:
  "fst (is_wav_file nul_path \<lparr>fs = example_fs, stdin = [], trace = []\<rparr>) \<noteq> Inr True
   \<and> fst (transcribe_file tools_ok (LANGUAGE_API_KEYS example_environ) nul_path ''EN''
          \<lparr>fs = example_fs, stdin = [], trace = []\<rparr>) = Inl (ValueError ''embedded null byte'')
   \<and> trace (snd (transcribe_file tools_ok (LANGUAGE_API_KEYS example_environ) nul_path ''EN''
          \<lparr>fs = example_fs, stdin = [], trace = []\<rparr>)) = [Dispatch nul_path ''EN'']"
  by code_simp

text \<open>
  C1, as the program behaves. When the probe accepts the file, a credential is found,
  and the transcription pipeline raises an exception that is an instance of
  \<^verbatim>\<open>Exception\<close>, \<open>transcribe_file\<close> catches it, writes it to the log, tells the user and
  returns normally. In a directory batch, whatever entry led to this dispatch, the loop
  goes on with the remaining entries from the state the dispatcher left.
\<close>

theorem pipeline_exception_isolated:
  assumes "fst (is_wav_file p w) = Inr True"
    and "dict_get keys (upper ls) = Some k" and "k \<noteq> []"
    and "farrigh ext (make_config p ls k) (fs w) = (Some e, f')"
    and "is_Exception e"
  shows "transcribe_file ext keys p ls w =
           (Inr (), w\<lparr>fs := f', trace := trace w @
              [Dispatch p ls, Print (''Transcribing file: '' @ str_path p),
               Farrigh (make_config p ls k) (Some e),
               LogError ''Error during transcription: '' e,
               Print ''Error during transcription. Check the logs for more information.'']\<rparr>)
         \<and> (directory_entry ext keys entry v = transcribe_file ext keys p ls w \<longrightarrow>
              for_each (directory_entry ext keys) (entry # rest) v =
                for_each (directory_entry ext keys) rest
                  (snd (transcribe_file ext keys p ls w)))"
proof -
  from transcribe_file_run [OF assms(1,2,3,4)] assms(5)
  have eq: "transcribe_file ext keys p ls w =
           (Inr (), w\<lparr>fs := f', trace := trace w @
              [Dispatch p ls, Print (''Transcribing file: '' @ str_path p),
               Farrigh (make_config p ls k) (Some e),
               LogError ''Error during transcription: '' e,
               Print ''Error during transcription. Check the logs for more information.'']\<rparr>)"
    by simp
  have "for_each (directory_entry ext keys) (entry # rest) v =
          for_each (directory_entry ext keys) rest (snd (transcribe_file ext keys p ls w))"
    if "directory_entry ext keys entry v = transcribe_file ext keys p ls w"
    by (rule for_each_Cons_returns) (simp add: that eq)
  with eq show ?thesis by blast
qed

lemma example_suffixes:
  "lower (suffix (PurePath [] [''d'', ''a.wav''])) = ''.wav''"
  "lower (suffix (PurePath [] [''d'', ''b.mp3''])) = ''.mp3''"
  "lower (suffix (PurePath [] [''d'', ''c.mkv''])) = ''.mkv''"
  "lower (suffix (PurePath [] [''audio.dat''])) = ''.dat''"
  by code_simp+

lemma example_names:
  "name (PurePath [] [''d'', ''a.wav'']) = ''a.wav''"
  "name (PurePath [] [''d'', ''b.mp3'']) = ''b.mp3''"
  "name (PurePath [] [''d'', ''c.mkv'']) = ''c.mkv''"
  by code_simp+

lemma example_upper: "upper ''en'' = ''EN''" "upper ''EN'' = ''EN''" "upper ''De'' = ''DE''"
  by code_simp+

lemma example_key: "dict_get (LANGUAGE_API_KEYS example_environ) ''EN'' = Some ''token-en''"
  by code_simp

theorem pipeline_exception_isolated_witness:
  "fst (is_wav_file (PurePath [] [''d'', ''a.wav''])
         \<lparr>fs = example_fs, stdin = [''EN''],
          trace = [Prompt ''Enter the language sign for a.wav (e.g., EN, AR, FR, JA): '']\<rparr>)
     = Inr True
   \<and> is_Exception (RuntimeError ''service unavailable'')
   \<and> fst (transcribe_file tools_pipeline_fails (LANGUAGE_API_KEYS example_environ)
            (PurePath [] [''d'', ''a.wav'']) ''en''
            \<lparr>fs = example_fs, stdin = [''EN''],
             trace = [Prompt ''Enter the language sign for a.wav (e.g., EN, AR, FR, JA): '']\<rparr>) = Inr ()
   \<and> for_each (directory_entry tools_pipeline_fails (LANGUAGE_API_KEYS example_environ))
        [PurePath [] [''d'', ''a.wav''], PurePath [] [''d'', ''b.mp3'']]
        \<lparr>fs = example_fs, stdin = [''en'', ''EN''], trace = []\<rparr> =
      for_each (directory_entry tools_pipeline_fails (LANGUAGE_API_KEYS example_environ))
        [PurePath [] [''d'', ''b.mp3'']]
        (snd (transcribe_file tools_pipeline_fails (LANGUAGE_API_KEYS example_environ)
            (PurePath [] [''d'', ''a.wav'']) ''en''
            \<lparr>fs = example_fs, stdin = [''EN''],
             trace = [Prompt ''Enter the language sign for a.wav (e.g., EN, AR, FR, JA): '']\<rparr>))
   \<and> fst (for_each (directory_entry tools_pipeline_fails (LANGUAGE_API_KEYS example_environ))
        [PurePath [] [''d'', ''a.wav''], PurePath [] [''d'', ''b.mp3'']]
        \<lparr>fs = example_fs, stdin = [''en'', ''EN''], trace = []\<rparr>) = Inr ()
   \<and> filter (\<lambda>ev. is_Dispatch ev \<or> is_LogError ev)
        (trace (snd (for_each (directory_entry tools_pipeline_fails (LANGUAGE_API_KEYS example_environ))
          [PurePath [] [''d'', ''a.wav''], PurePath [] [''d'', ''b.mp3'']]
          \<lparr>fs = example_fs, stdin = [''en'', ''EN''], trace = []\<rparr>))) =
       [Dispatch (PurePath [] [''d'', ''a.wav'']) ''en'',
        LogError ''Error during transcription: '' (RuntimeError ''service unavailable''),
        Dispatch (PurePath [] [''d'', ''b.wav'']) ''EN'',
        LogError ''Error during transcription: '' (RuntimeError ''service unavailable'')]"
proof -
  let ?w = "\<lparr>fs = example_fs, stdin = [''EN''],
             trace = [Prompt ''Enter the language sign for a.wav (e.g., EN, AR, FR, JA): '']\<rparr>"
  let ?v = "\<lparr>fs = example_fs, stdin = [''en'', ''EN''], trace = []\<rparr>"
  let ?p = "PurePath [] [''d'', ''a.wav'']"
  let ?keys = "LANGUAGE_API_KEYS example_environ"
  have h1: "fst (is_wav_file ?p ?w) = Inr True"
    by code_simp
  have h2: "dict_get ?keys (upper ''en'') = Some ''token-en''"
    by (simp add: example_upper example_key)
  have h3: "''token-en'' \<noteq> []"
    by simp
  have h4: "farrigh tools_pipeline_fails (make_config ?p ''en'' ''token-en'') (fs ?w) =
              (Some (RuntimeError ''service unavailable''), example_fs)"
    by (simp add: tools_pipeline_fails_def)
  have h5: "is_Exception (RuntimeError ''service unavailable'')"
    by simp
  have h6: "directory_entry tools_pipeline_fails ?keys ?p ?v =
              transcribe_file tools_pipeline_fails ?keys ?p ''en'' ?w"
    by (simp add: directory_entry_def example_suffixes example_names seq_def py_input_def)
  have batch: "fst (for_each (directory_entry tools_pipeline_fails ?keys)
        [?p, PurePath [] [''d'', ''b.mp3'']] ?v) = Inr ()"
    "filter (\<lambda>ev. is_Dispatch ev \<or> is_LogError ev)
        (trace (snd (for_each (directory_entry tools_pipeline_fails ?keys)
          [?p, PurePath [] [''d'', ''b.mp3'']] ?v))) =
       [Dispatch (PurePath [] [''d'', ''a.wav'']) ''en'',
        LogError ''Error during transcription: '' (RuntimeError ''service unavailable''),
        Dispatch (PurePath [] [''d'', ''b.wav'']) ''EN'',
        LogError ''Error during transcription: '' (RuntimeError ''service unavailable'')]"
    by code_simp+
  from pipeline_exception_isolated [OF h1 h2 h3 h4 h5, where entry = ?p and v = ?v
        and rest = "[PurePath [] [''d'', ''b.mp3'']]"] h1 h5 h6 batch
  show ?thesis by simp
qed

text \<open>
  C1 as it is worded covers every exception. \<^verbatim>\<open>except Exception\<close> lets through what
  derives from \<^verbatim>\<open>BaseException\<close> only: when the pipeline raises \<^verbatim>\<open>SystemExit\<close>, nothing is
  logged, \<open>transcribe_file\<close> raises it again, and the directory loop ends after the
  first entry.
\<close>

theorem pipeline_exit_propagates_counterexample:
  "fst (is_wav_file (PurePath [] [''d'', ''a.wav''])
         \<lparr>fs = example_fs, stdin = [''EN''], trace = []\<rparr>) = Inr True
   \<and> dict_get (LANGUAGE_API_KEYS example_environ) (upper ''en'') = Some ''token-en''
   \<and> fst (farrigh tools_pipeline_exits
            (make_config (PurePath [] [''d'', ''a.wav'']) ''en'' ''token-en'') example_fs) =
       Some (SystemExit 3)
   \<and> fst (transcribe_file tools_pipeline_exits (LANGUAGE_API_KEYS example_environ)
            (PurePath [] [''d'', ''a.wav'']) ''en''
            \<lparr>fs = example_fs, stdin = [''EN''], trace = []\<rparr>) = Inl (SystemExit 3)
   \<and> filter is_LogError (trace (snd (transcribe_file tools_pipeline_exits
            (LANGUAGE_API_KEYS example_environ) (PurePath [] [''d'', ''a.wav'']) ''en''
            \<lparr>fs = example_fs, stdin = [''EN''], trace = []\<rparr>))) = []
   \<and> fst (for_each (directory_entry tools_pipeline_exits (LANGUAGE_API_KEYS example_environ))
        [PurePath [] [''d'', ''a.wav''], PurePath [] [''d'', ''b.mp3'']]
        \<lparr>fs = example_fs, stdin = [''en'', ''EN''], trace = []\<rparr>) = Inl (SystemExit 3)
   \<and> filter is_Dispatch
        (trace (snd (for_each (directory_entry tools_pipeline_exits (LANGUAGE_API_KEYS example_environ))
          [PurePath [] [''d'', ''a.wav''], PurePath [] [''d'', ''b.mp3'']]
          \<lparr>fs = example_fs, stdin = [''en'', ''EN''], trace = []\<rparr>))) =
       [Dispatch (PurePath [] [''d'', ''a.wav'']) ''en'']"
  by code_simp

text \<open>
  C8. For a file that passes the probe, with a credential found for the language code,
  the pipeline is invoked once, with this configuration: the file as the only input,
  three download retries, no playlist filter, the language code as typed, the credential
  as the only access token, a maximum cutting duration of 5, at least one word per
  segment, the output formats TXT and SRT, and the parent directory of the file as
  output directory.
\<close>

theorem transcribe_file_config:
  assumes "fst (is_wav_file p w) = Inr True"
    and "dict_get keys (upper ls) = Some k" and "k \<noteq> []"
  shows "map farrigh_config (filter is_Farrigh (trace (snd (transcribe_file ext keys p ls w)))) =
         map farrigh_config (filter is_Farrigh (trace w)) @
           [\<lparr>input_section = \<lparr>
                urls_or_paths = [str_path p],
                skip_if_output_exist = False,
                playlist_items = [],
                download_retries = 3,
                verbose = False\<rparr>,
             whisper_section = \<lparr>
                model_name_or_path = ''path/to/your/model'',
                task = ''transcribe'',
                language = ls,
                use_faster_whisper = False,
                beam_size = 0,
                ct2_compute_type = []\<rparr>,
             wit_section = \<lparr>
                wit_client_access_tokens = [k],
                max_cutting_duration = 5\<rparr>,
             output_section = \<lparr>
                min_words_per_segment = 1,
                save_files_before_compact = False,
                save_yt_dlp_responses = False,
                output_sample = 0,
                output_formats = [TXT, SRT],
                output_dir = str_path (parent p)\<rparr>\<rparr>]"
proof -
  obtain r f' where far: "farrigh ext (make_config p ls k) (fs w) = (r, f')"
    by (cases "farrigh ext (make_config p ls k) (fs w)")
  show ?thesis
    unfolding transcribe_file_run [OF assms(1,2,3) far]
    by (simp add: make_config_def split: option.splits)
qed

theorem transcribe_file_config_witness:
  "fst (is_wav_file (PurePath [] [''d'', ''a.wav'']) \<lparr>fs = example_fs, stdin = [], trace = []\<rparr>)
     = Inr True
   \<and> map farrigh_config (filter is_Farrigh (trace (snd
        (transcribe_file tools_ok (LANGUAGE_API_KEYS example_environ)
           (PurePath [] [''d'', ''a.wav'']) ''en'' \<lparr>fs = example_fs, stdin = [], trace = []\<rparr>)))) =
       [\<lparr>input_section = \<lparr>
            urls_or_paths = [''d/a.wav''],
            skip_if_output_exist = False,
            playlist_items = [],
            download_retries = 3,
            verbose = False\<rparr>,
         whisper_section = \<lparr>
            model_name_or_path = ''path/to/your/model'',
            task = ''transcribe'',
            language = ''en'',
            use_faster_whisper = False,
            beam_size = 0,
            ct2_compute_type = []\<rparr>,
         wit_section = \<lparr>
            wit_client_access_tokens = [''token-en''],
            max_cutting_duration = 5\<rparr>,
         output_section = \<lparr>
            min_words_per_segment = 1,
            save_files_before_compact = False,
            save_yt_dlp_responses = False,
            output_sample = 0,
            output_formats = [TXT, SRT],
            output_dir = ''d''\<rparr>\<rparr>]"
proof -
  let ?w = "\<lparr>fs = example_fs, stdin = [], trace = []\<rparr>"
  let ?p = "PurePath [] [''d'', ''a.wav'']"
  have h1: "fst (is_wav_file ?p ?w) = Inr True"
    by code_simp
  have h2: "dict_get (LANGUAGE_API_KEYS example_environ) (upper ''en'') = Some ''token-en''"
    by (simp add: example_upper example_key)
  have h3: "''token-en'' \<noteq> []"
    by simp
  have s: "str_path ?p = ''d/a.wav''" "str_path (parent ?p) = ''d''"
    by code_simp+
  from transcribe_file_config [OF h1 h2 h3, of tools_ok] h1 s
  show ?thesis by simp
qed

subsection \<open>The credential registry\<close>

lemma dict_get_recognized:
  "(code, var) \<in> set recognized_codes \<Longrightarrow> dict_get (LANGUAGE_API_KEYS environ) code = environ var"
  by (auto simp: recognized_codes_def LANGUAGE_API_KEYS_def dict_get_def split: option.splits)

lemma dict_get_unrecognized:
  "code \<notin> fst ` set recognized_codes \<Longrightarrow> dict_get (LANGUAGE_API_KEYS environ) code = None"
  by (auto simp: recognized_codes_def LANGUAGE_API_KEYS_def dict_get_def)

text \<open>
  C6. The dispatcher looks the credential up under the upper-cased language code,
  once the probe has accepted the file. For a recognized code whose environment variable
  holds a non-empty credential, every spelling of the code that differs only in case
  finds that credential, and the pipeline is invoked with it. For every other code -
  not one of the four, or one whose variable is unset or empty - the lookup finds
  nothing: the dispatcher reports the missing key and returns normally, without
  invoking the pipeline and without touching the file system.
\<close>

theorem credential_lookup:
  "((code, var) \<in> set recognized_codes \<and> environ var = Some k \<and> k \<noteq> [] \<and> upper ls = code \<longrightarrow>
      dict_get (LANGUAGE_API_KEYS environ) (upper ls) = Some k
      \<and> (fst (is_wav_file p w) = Inr True \<longrightarrow>
           map farrigh_config (filter is_Farrigh
             (trace (snd (transcribe_file ext (LANGUAGE_API_KEYS environ) p ls w)))) =
           map farrigh_config (filter is_Farrigh (trace w)) @ [make_config p ls k]
           \<and> wit_client_access_tokens (wit_section (make_config p ls k)) = [k]))
   \<and> (\<not> (\<exists>c v. (c, v) \<in> set recognized_codes \<and> upper ls = c \<and> truthy (environ v)) \<longrightarrow>
      \<not> truthy (dict_get (LANGUAGE_API_KEYS environ) (upper ls))
      \<and> (fst (is_wav_file p w) = Inr True \<longrightarrow>
           transcribe_file ext (LANGUAGE_API_KEYS environ) p ls w =
             (Inr (), w\<lparr>trace := trace w @
                [Dispatch p ls, Print (''API key not found for language: '' @ ls)]\<rparr>)))"
proof -
  let ?keys = "LANGUAGE_API_KEYS environ"
  have key: "dict_get ?keys (upper ls) = Some k"
    if "(code, var) \<in> set recognized_codes" "environ var = Some k" "upper ls = code"
    using that dict_get_recognized [of code var environ] by simp
  have tok: "wit_client_access_tokens (wit_section (make_config p ls k)) = [k]"
    by (simp add: make_config_def)
  have run: "map farrigh_config (filter is_Farrigh (trace (snd (transcribe_file ext ?keys p ls w)))) =
             map farrigh_config (filter is_Farrigh (trace w)) @ [make_config p ls k]"
    if k: "dict_get ?keys (upper ls) = Some k" "k \<noteq> []" and wav: "fst (is_wav_file p w) = Inr True"
  proof -
    obtain r f' where far: "farrigh ext (make_config p ls k) (fs w) = (r, f')"
      by (cases "farrigh ext (make_config p ls k) (fs w)")
    from transcribe_file_run [OF wav k far] show ?thesis
      by (simp split: option.splits)
  qed
  have nf: "\<not> truthy (dict_get ?keys (upper ls))"
    if a: "\<not> (\<exists>c v. (c, v) \<in> set recognized_codes \<and> upper ls = c \<and> truthy (environ v))"
  proof (cases "upper ls \<in> fst ` set recognized_codes")
    case True
    then obtain v where v: "(upper ls, v) \<in> set recognized_codes" by force
    with a have "\<not> truthy (environ v)" by blast
    with v show ?thesis by (simp add: dict_get_recognized)
  next
    case False
    then show ?thesis by (simp add: dict_get_unrecognized truthy_def)
  qed
  have msg: "transcribe_file ext ?keys p ls w =
          (Inr (), w\<lparr>trace := trace w @
             [Dispatch p ls, Print (''API key not found for language: '' @ ls)]\<rparr>)"
    if "\<not> truthy (dict_get ?keys (upper ls))" and wav: "fst (is_wav_file p w) = Inr True"
    by (rule transcribe_file_no_key [OF wav that(1)])
  show ?thesis
  proof (intro conjI impI)
    assume a: "(code, var) \<in> set recognized_codes \<and> environ var = Some k \<and> k \<noteq> [] \<and> upper ls = code"
    then show k: "dict_get ?keys (upper ls) = Some k"
      using key by blast
    show "wit_client_access_tokens (wit_section (make_config p ls k)) = [k]"
      by (rule tok)
    assume "fst (is_wav_file p w) = Inr True"
    with a k show "map farrigh_config (filter is_Farrigh (trace (snd (transcribe_file ext ?keys p ls w)))) =
             map farrigh_config (filter is_Farrigh (trace w)) @ [make_config p ls k]"
      using run by blast
  next
    assume a: "\<not> (\<exists>c v. (c, v) \<in> set recognized_codes \<and> upper ls = c \<and> truthy (environ v))"
    from nf [OF a] show n: "\<not> truthy (dict_get ?keys (upper ls))" .
    assume "fst (is_wav_file p w) = Inr True"
    with n show "transcribe_file ext ?keys p ls w =
          (Inr (), w\<lparr>trace := trace w @
             [Dispatch p ls, Print (''API key not found for language: '' @ ls)]\<rparr>)"
      by (rule msg)
  qed
qed

theorem credential_lookup_witness:
  "(''EN'', ''WIT_API_KEY_ENGLISH'') \<in> set recognized_codes
   \<and> example_environ ''WIT_API_KEY_ENGLISH'' = Some ''token-en''
   \<and> upper ''en'' = ''EN''
   \<and> fst (is_wav_file (PurePath [] [''d'', ''a.wav'']) \<lparr>fs = example_fs, stdin = [], trace = []\<rparr>)
       = Inr True
   \<and> dict_get (LANGUAGE_API_KEYS example_environ) (upper ''en'') = Some ''token-en''
   \<and> map farrigh_config (filter is_Farrigh (trace (snd
        (transcribe_file tools_ok (LANGUAGE_API_KEYS example_environ)
           (PurePath [] [''d'', ''a.wav'']) ''en'' \<lparr>fs = example_fs, stdin = [], trace = []\<rparr>)))) =
       [make_config (PurePath [] [''d'', ''a.wav'']) ''en'' ''token-en'']
   \<and> \<not> (\<exists>c v. (c, v) \<in> set recognized_codes \<and> upper ''fr'' = c \<and> truthy (example_environ v))
   \<and> transcribe_file tools_ok (LANGUAGE_API_KEYS example_environ)
        (PurePath [] [''d'', ''a.wav'']) ''fr'' \<lparr>fs = example_fs, stdin = [], trace = []\<rparr> =
      (Inr (), \<lparr>fs = example_fs, stdin = [],
                trace = [Dispatch (PurePath [] [''d'', ''a.wav'']) ''fr'',
                         Print ''API key not found for language: fr'']\<rparr>)
   \<and> \<not> (\<exists>c v. (c, v) \<in> set recognized_codes \<and> upper ''De'' = c \<and> truthy (example_environ v))
   \<and> fst (transcribe_file tools_ok (LANGUAGE_API_KEYS example_environ)
        (PurePath [] [''d'', ''a.wav'']) ''De'' \<lparr>fs = example_fs, stdin = [], trace = []\<rparr>) = Inr ()"
proof -
  let ?w = "\<lparr>fs = example_fs, stdin = [], trace = []\<rparr>"
  let ?p = "PurePath [] [''d'', ''a.wav'']"
  have h1: "(''EN'', ''WIT_API_KEY_ENGLISH'') \<in> set recognized_codes
            \<and> example_environ ''WIT_API_KEY_ENGLISH'' = Some ''token-en''
            \<and> ''token-en'' \<noteq> [] \<and> upper ''en'' = ''EN''"
    by (simp add: recognized_codes_def example_environ_def example_upper)
  have h2: "fst (is_wav_file ?p ?w) = Inr True"
    by code_simp
  have u: "upper ''fr'' = ''FR''"
    by code_simp
  have h3: "\<not> (\<exists>c v. (c, v) \<in> set recognized_codes \<and> upper ''fr'' = c \<and> truthy (example_environ v))"
    by (auto simp: recognized_codes_def example_environ_def u truthy_def)
  have h4: "\<not> (\<exists>c v. (c, v) \<in> set recognized_codes \<and> upper ''De'' = c \<and> truthy (example_environ v))"
    by (auto simp: recognized_codes_def example_environ_def example_upper truthy_def)
  from credential_lookup [of "''EN''" "''WIT_API_KEY_ENGLISH''" example_environ "''token-en''" "''en''" ?p ?w tools_ok]
    h1 h2
  have a: "dict_get (LANGUAGE_API_KEYS example_environ) (upper ''en'') = Some ''token-en''
           \<and> map farrigh_config (filter is_Farrigh (trace (snd
               (transcribe_file tools_ok (LANGUAGE_API_KEYS example_environ) ?p ''en'' ?w)))) =
             [make_config ?p ''en'' ''token-en'']"
    by simp
  from credential_lookup [of _ _ example_environ _ "''fr''" ?p ?w tools_ok] h2 h3
  have b: "transcribe_file tools_ok (LANGUAGE_API_KEYS example_environ) ?p ''fr'' ?w =
      (Inr (), \<lparr>fs = example_fs, stdin = [],
                trace = [Dispatch ?p ''fr'', Print ''API key not found for language: fr'']\<rparr>)"
    by simp
  from credential_lookup [of _ _ example_environ _ "''De''" ?p ?w tools_ok] h2 h4
  have c: "fst (transcribe_file tools_ok (LANGUAGE_API_KEYS example_environ) ?p ''De'' ?w) = Inr ()"
    by simp
  from a b c h1 h2 h3 h4 show ?thesis by blast
qed

subsection \<open>Start-up\<close>

text \<open>
  C3. When none of the four environment variables holds a non-empty credential, the
  program prints a diagnostic and exits with status 1; no prompt has been shown and no
  input has been read.
\<close>

theorem startup_without_credentials:
  assumes "\<not> truthy (environ ''WIT_API_KEY_ENGLISH'')"
    and "\<not> truthy (environ ''WIT_API_KEY_ARABIC'')"
    and "\<not> truthy (environ ''WIT_API_KEY_FRENCH'')"
    and "\<not> truthy (environ ''WIT_API_KEY_JAPANESE'')"
  shows "program ext environ file_dunder w =
           (Inl (SystemExit 1), w\<lparr>trace := trace w @
              [Print ''Error: At least one Wit.ai API key must be provided in the .env file.'']\<rparr>)
         \<and> filter is_Prompt (trace (snd (program ext environ file_dunder w))) =
             filter is_Prompt (trace w)
         \<and> stdin (snd (program ext environ file_dunder w)) = stdin w"
  using assms by (simp add: program_def LANGUAGE_API_KEYS_def action_defs)

theorem startup_without_credentials_witness:
  "\<not> truthy (unconfigured_environ ''WIT_API_KEY_ENGLISH'')
   \<and> \<not> truthy (unconfigured_environ ''WIT_API_KEY_ARABIC'')
   \<and> program tools_ok unconfigured_environ example_script
        \<lparr>fs = example_fs, stdin = [''L'', ''d''], trace = []\<rparr> =
      (Inl (SystemExit 1),
       \<lparr>fs = example_fs, stdin = [''L'', ''d''],
        trace = [Print ''Error: At least one Wit.ai API key must be provided in the .env file.'']\<rparr>)"
proof -
  have h: "\<not> truthy (unconfigured_environ ''WIT_API_KEY_ENGLISH'')"
    "\<not> truthy (unconfigured_environ ''WIT_API_KEY_ARABIC'')"
    "\<not> truthy (unconfigured_environ ''WIT_API_KEY_FRENCH'')"
    "\<not> truthy (unconfigured_environ ''WIT_API_KEY_JAPANESE'')"
    by (simp_all add: truthy_def unconfigured_environ_def)
  from startup_without_credentials [OF h, of tools_ok example_script
      "\<lparr>fs = example_fs, stdin = [''L'', ''d''], trace = []\<rparr>"] h
  show ?thesis by simp
qed

subsection \<open>The remote fetcher\<close>

text \<open>
  C9. When the downloader exits with status zero and the downloads directory beside
  the script then holds no entry matching \<^verbatim>\<open>*.wav\<close>, \<open>download_youtube_audio\<close> raises
  \<^verbatim>\<open>StopIteration\<close>: its handler, which catches \<^verbatim>\<open>CalledProcessError\<close> only, does not apply,
  nothing is logged or printed, and \<^verbatim>\<open>sys.exit\<close> is not called. In remote mode \<open>main\<close>
  lets the exception through, so the run ends with it.
\<close>

theorem download_without_wav_raises:
  assumes "run_process ext
             [''yt-dlp'', ''-x'', ''--audio-format'', ''wav'', ''-o'',
              str_path (joinpath (joinpath (parent file_dunder) ''downloads'') ''%(id)s.%(ext)s''),
              youtube_url] (fs w) = (CompletedProcess 0, f')"
    and "glob_downloads_wav f' (parent file_dunder) = []"
  shows "download_youtube_audio ext file_dunder youtube_url w =
           (Inl StopIteration, w\<lparr>fs := f', trace := trace w @
              [Run [''yt-dlp'', ''-x'', ''--audio-format'', ''wav'', ''-o'',
                    str_path (joinpath (joinpath (parent file_dunder) ''downloads'') ''%(id)s.%(ext)s''),
                    youtube_url] (CompletedProcess 0)]\<rparr>)
         \<and> (stdin v = c # youtube_url # ls # rest \<and> upper (strip c) = ''Y'' \<and> fs v = fs w \<longrightarrow>
              fst (main ext keys file_dunder v) = Inl StopIteration
              \<and> trace (snd (main ext keys file_dunder v)) = trace v @
                  [Prompt ''Do you want to transcribe a YouTube video (Y) or a local file (L)? [Y/L]: '',
                   Prompt ''Enter the YouTube video link: '',
                   Prompt ''Enter the language sign (e.g., EN, AR, FR, JA): '',
                   Run [''yt-dlp'', ''-x'', ''--audio-format'', ''wav'', ''-o'',
                        str_path (joinpath (joinpath (parent file_dunder) ''downloads'') ''%(id)s.%(ext)s''),
                        youtube_url] (CompletedProcess 0)])"
proof -
  have d: "download_youtube_audio ext file_dunder youtube_url u =
           (Inl StopIteration, u\<lparr>fs := f', trace := trace u @
              [Run [''yt-dlp'', ''-x'', ''--audio-format'', ''wav'', ''-o'',
                    str_path (joinpath (joinpath (parent file_dunder) ''downloads'') ''%(id)s.%(ext)s''),
                    youtube_url] (CompletedProcess 0)]\<rparr>)"
    if "fs u = fs w" for u
    using assms that
    by (simp add: download_youtube_audio_def action_defs subprocess_run_def py_next_def Let_def)
  have "fst (main ext keys file_dunder v) = Inl StopIteration
        \<and> trace (snd (main ext keys file_dunder v)) = trace v @
            [Prompt ''Do you want to transcribe a YouTube video (Y) or a local file (L)? [Y/L]: '',
             Prompt ''Enter the YouTube video link: '',
             Prompt ''Enter the language sign (e.g., EN, AR, FR, JA): '',
             Run [''yt-dlp'', ''-x'', ''--audio-format'', ''wav'', ''-o'',
                  str_path (joinpath (joinpath (parent file_dunder) ''downloads'') ''%(id)s.%(ext)s''),
                  youtube_url] (CompletedProcess 0)]"
    if "stdin v = c # youtube_url # ls # rest" "upper (strip c) = ''Y''" "fs v = fs w"
    using that by (simp add: main_def seq_def py_input_def d)
  with d [of w] show ?thesis by blast
qed

theorem download_without_wav_raises_witness:
  "glob_downloads_wav example_fs (parent example_script) = []
   \<and> upper (strip ''y '') = ''Y''
   \<and> fst (download_youtube_audio tools_pipeline_raises example_script ''https://youtu.be/x''
        \<lparr>fs = example_fs, stdin = [''y '', ''https://youtu.be/x'', ''EN''], trace = []\<rparr>) = Inl StopIteration
   \<and> fst (main tools_pipeline_raises (LANGUAGE_API_KEYS example_environ) example_script
        \<lparr>fs = example_fs, stdin = [''y '', ''https://youtu.be/x'', ''EN''], trace = []\<rparr>) = Inl StopIteration
   \<and> filter is_LogError (trace (snd (main tools_pipeline_raises (LANGUAGE_API_KEYS example_environ) example_script
        \<lparr>fs = example_fs, stdin = [''y '', ''https://youtu.be/x'', ''EN''], trace = []\<rparr>))) = []"
proof -
  let ?w = "\<lparr>fs = example_fs, stdin = [''y '', ''https://youtu.be/x'', ''EN''], trace = []\<rparr>"
  have h1: "run_process tools_pipeline_raises
             [''yt-dlp'', ''-x'', ''--audio-format'', ''wav'', ''-o'',
              str_path (joinpath (joinpath (parent example_script) ''downloads'') ''%(id)s.%(ext)s''),
              ''https://youtu.be/x''] (fs ?w) = (CompletedProcess 0, example_fs)"
    by (simp add: tools_pipeline_raises_def)
  have h2: "glob_downloads_wav example_fs (parent example_script) = []"
    by code_simp
  have h3: "upper (strip ''y '') = ''Y''"
    by code_simp
  from download_without_wav_raises [OF h1 h2, where v = ?w and c = "''y ''" and ls = "''EN''"
      and rest = "[]" and keys = "LANGUAGE_API_KEYS example_environ"] h2 h3
  show ?thesis by simp
qed

subsection \<open>Failures of the transcoder and the downloader\<close>

lemma quietI:
  assumes "\<And>w r w'. m w = (r, w') \<Longrightarrow> \<exists>evs. trace w' = trace w @ evs \<and> (\<forall>e \<in> set evs. \<not> failed_run e)"
  shows "quiet m"
  using assms unfolding quiet_def by blast

lemma quiet_return: "quiet (return x)"
  by (rule quietI) (auto simp: return_def)

lemma quiet_raise: "quiet (raise e)"
  by (rule quietI) (auto simp: raise_def)

lemma quiet_sys_exit: "quiet (sys_exit n)"
  by (simp add: sys_exit_def quiet_raise)

lemma quiet_lift: "quiet (lift r)"
  by (rule quietI) (auto simp: lift_def)

lemma quiet_emit: "\<not> failed_run ev \<Longrightarrow> quiet (emit ev)"
  by (rule quietI) (auto simp: emit_def)

lemma quiet_print: "quiet (print s)"
  by (simp add: print_def quiet_emit failed_run_def)

lemma quiet_logging_error: "quiet (logging_error prefix e)"
  by (simp add: logging_error_def quiet_emit failed_run_def)

lemma quiet_py_input: "quiet (py_input prompt)"
  by (rule quietI) (auto simp: py_input_def failed_run_def split: list.splits)

lemma quiet_is_wav_file: "quiet (is_wav_file p)"
  by (rule quietI) (auto simp: is_wav_file_probe)

lemma quiet_drain_farrigh: "quiet (drain_farrigh ext cfg)"
  by (rule quietI) (auto simp: drain_farrigh_def failed_run_def split: prod.splits)

lemma quiet_seq:
  assumes "quiet m" and "\<And>x. quiet (f x)"
  shows "quiet (seq m f)"
proof (rule quietI)
  fix w r w'
  assume run: "seq m f w = (r, w')"
  obtain r1 w1 where m: "m w = (r1, w1)" by (cases "m w")
  with assms(1) obtain evs1 where e1: "trace w1 = trace w @ evs1" "\<forall>e \<in> set evs1. \<not> failed_run e"
    unfolding quiet_def by blast
  show "\<exists>evs. trace w' = trace w @ evs \<and> (\<forall>e \<in> set evs. \<not> failed_run e)"
  proof (cases r1)
    case (Inl e)
    with run m have "w' = w1" by (simp add: seq_def)
    with e1 show ?thesis by blast
  next
    case (Inr x)
    with run m have "f x w1 = (r, w')" by (simp add: seq_def)
    with assms(2) [of x] obtain evs2 where
      e2: "trace w' = trace w1 @ evs2" "\<forall>e \<in> set evs2. \<not> failed_run e"
      unfolding quiet_def by blast
    from e1 e2 have "trace w' = trace w @ (evs1 @ evs2)" "\<forall>e \<in> set (evs1 @ evs2). \<not> failed_run e"
      by auto
    then show ?thesis by blast
  qed
qed

lemma quiet_try_except:
  assumes "quiet m" and "\<And>e. quiet (h e)"
  shows "quiet (try_except m catches h)"
proof (rule quietI)
  fix w r w'
  assume run: "try_except m catches h w = (r, w')"
  obtain r1 w1 where m: "m w = (r1, w1)" by (cases "m w")
  with assms(1) obtain evs1 where e1: "trace w1 = trace w @ evs1" "\<forall>e \<in> set evs1. \<not> failed_run e"
    unfolding quiet_def by blast
  show "\<exists>evs. trace w' = trace w @ evs \<and> (\<forall>e \<in> set evs. \<not> failed_run e)"
  proof (cases "\<exists>e. r1 = Inl e \<and> catches e")
    case True
    then obtain e where e: "r1 = Inl e" "catches e" by blast
    with run m have "h e w1 = (r, w')" by (simp add: try_except_def)
    with assms(2) [of e] obtain evs2 where
      e2: "trace w' = trace w1 @ evs2" "\<forall>e \<in> set evs2. \<not> failed_run e"
      unfolding quiet_def by blast
    from e1 e2 have "trace w' = trace w @ (evs1 @ evs2)" "\<forall>e \<in> set (evs1 @ evs2). \<not> failed_run e"
      by auto
    then show ?thesis by blast
  next
    case False
    with run m have "w' = w1" by (cases r1) (auto simp: try_except_def)
    with e1 show ?thesis by blast
  qed
qed

lemma quiet_transcribe_file: "quiet (transcribe_file ext keys p ls)"
  unfolding transcribe_file_def Let_def
  by (intro quiet_seq quiet_emit quiet_is_wav_file quiet_try_except quiet_print
        quiet_logging_error quiet_drain_farrigh)
     (auto simp: failed_run_def quiet_print quiet_seq quiet_try_except quiet_drain_farrigh
        quiet_logging_error split: option.splits)

lemma soundI:
  assumes "\<And>w r w'. m w = (r, w') \<Longrightarrow>
             \<exists>evs. trace w' = trace w @ evs \<and> ((\<forall>e \<in> set evs. \<not> failed_run e) \<or> fatal r evs)"
  shows "sound m"
  using assms unfolding sound_def by blast

lemma quiet_sound: "quiet m \<Longrightarrow> sound m"
  unfolding quiet_def sound_def by blast

lemma fatal_not_Inr: "\<not> fatal (Inr x) evs"
  by (simp add: fatal_def)

lemma fatal_append:
  assumes "\<forall>e \<in> set evs1. \<not> failed_run e" and "fatal r evs2"
  shows "fatal r (evs1 @ evs2)"
proof -
  from assms(2) obtain pre cmd rc prefix msg where
    r: "r = Inl (SystemExit 1)" and
    evs2: "evs2 = pre @ [Run cmd (CompletedProcess rc),
                         LogError prefix (CalledProcessError cmd rc), Print msg]" and
    rest: "rc \<noteq> 0" "\<forall>e \<in> set pre. \<not> failed_run e" "(prefix, msg) \<in> set failure_reports"
    unfolding fatal_def by blast
  from evs2 have "evs1 @ evs2 = (evs1 @ pre) @ [Run cmd (CompletedProcess rc),
                         LogError prefix (CalledProcessError cmd rc), Print msg]"
    by simp
  moreover from assms(1) rest(2) have "\<forall>e \<in> set (evs1 @ pre). \<not> failed_run e"
    by auto
  ultimately show ?thesis
    unfolding fatal_def using r rest(1,3) by blast
qed

lemma sound_seq:
  assumes "sound m" and "\<And>x. sound (f x)"
  shows "sound (seq m f)"
proof (rule soundI)
  fix w r w'
  assume run: "seq m f w = (r, w')"
  obtain r1 w1 where m: "m w = (r1, w1)" by (cases "m w")
  with assms(1) obtain evs1 where
    e1: "trace w1 = trace w @ evs1" "(\<forall>e \<in> set evs1. \<not> failed_run e) \<or> fatal r1 evs1"
    unfolding sound_def by blast
  show "\<exists>evs. trace w' = trace w @ evs \<and> ((\<forall>e \<in> set evs. \<not> failed_run e) \<or> fatal r evs)"
  proof (cases r1)
    case (Inl e)
    with run m have "w' = w1" "r = Inl e" by (simp_all add: seq_def)
    with e1 Inl show ?thesis by (auto simp: fatal_def)
  next
    case (Inr x)
    with e1 have clean1: "\<forall>e \<in> set evs1. \<not> failed_run e"
      by (auto simp: fatal_not_Inr)
    from Inr run m have "f x w1 = (r, w')" by (simp add: seq_def)
    with assms(2) [of x] obtain evs2 where
      e2: "trace w' = trace w1 @ evs2" "(\<forall>e \<in> set evs2. \<not> failed_run e) \<or> fatal r evs2"
      unfolding sound_def by blast
    from e1 e2 have t: "trace w' = trace w @ (evs1 @ evs2)" by simp
    from e2(2) show ?thesis
    proof
      assume "\<forall>e \<in> set evs2. \<not> failed_run e"
      with clean1 have "\<forall>e \<in> set (evs1 @ evs2). \<not> failed_run e" by auto
      with t show ?thesis by blast
    next
      assume "fatal r evs2"
      with clean1 have "fatal r (evs1 @ evs2)" by (rule fatal_append)
      with t show ?thesis by blast
    qed
  qed
qed

lemma sound_cond:
  assumes "sound a" and "sound b"
  shows "sound (\<lambda>w. if c w then a w else b w)"
  using assms unfolding sound_def by (auto split: if_splits)

text \<open>A checked run followed by a quiet continuation, under a handler for
  \<^verbatim>\<open>CalledProcessError\<close> that logs, prints and exits: the shape of the three callers.\<close>

lemma sound_checked_run:
  assumes "(prefix, msg) \<in> set failure_reports" and "\<And>x. quiet (k x)"
  shows "sound (try_except (seq (subprocess_run ext cmd) k) is_CalledProcessError
                  (\<lambda>e. seq (logging_error prefix e) (\<lambda>_. seq (print msg) (\<lambda>_. sys_exit 1))))"
proof (rule soundI)
  fix w r w'
  let ?h = "\<lambda>e. seq (logging_error prefix e) (\<lambda>_. seq (print msg) (\<lambda>_. sys_exit 1))"
  assume run: "try_except (seq (subprocess_run ext cmd) k) is_CalledProcessError ?h w = (r, w')"
  have hq: "quiet (?h e)" for e
    by (intro quiet_seq quiet_logging_error quiet_print quiet_sys_exit)
  obtain o' f' where rp: "run_process ext cmd (fs w) = (o', f')"
    by (cases "run_process ext cmd (fs w)")
  have clean: "\<exists>evs. trace w' = trace w @ evs \<and> (\<forall>e \<in> set evs. \<not> failed_run e)"
    if ok: "\<not> failed_run (Run cmd o')"
  proof -
    have "quiet (\<lambda>v. if fs v = fs w then subprocess_run ext cmd v else (Inr (), v))"
      using rp ok
      by (intro quietI) (auto simp: subprocess_run_def split: if_splits proc_outcome.splits)
    then have "quiet (try_except
                 (seq (\<lambda>v. if fs v = fs w then subprocess_run ext cmd v else (Inr (), v)) k)
                 is_CalledProcessError ?h)"
      by (intro quiet_try_except quiet_seq assms(2) hq)
    moreover from run have
      "try_except (seq (\<lambda>v. if fs v = fs w then subprocess_run ext cmd v else (Inr (), v)) k)
         is_CalledProcessError ?h w = (r, w')"
      by (simp add: try_except_def seq_def)
    ultimately show ?thesis unfolding quiet_def by blast
  qed
  show "\<exists>evs. trace w' = trace w @ evs \<and> ((\<forall>e \<in> set evs. \<not> failed_run e) \<or> fatal r evs)"
  proof (cases "failed_run (Run cmd o')")
    case False
    from clean [OF this] show ?thesis by blast
  next
    case True
    then obtain rc where o': "o' = CompletedProcess rc" and rc: "rc \<noteq> 0"
      by (cases o') (auto simp: failed_run_def)
    with run rp have
      res: "r = Inl (SystemExit 1)"
        "trace w' = trace w @ [Run cmd (CompletedProcess rc),
                               LogError prefix (CalledProcessError cmd rc), Print msg]"
      by (auto simp: subprocess_run_def action_defs)
    with rc assms(1) have "fatal r ([] @ [Run cmd (CompletedProcess rc),
                               LogError prefix (CalledProcessError cmd rc), Print msg])"
      unfolding fatal_def by auto
    with res(2) show ?thesis by auto
  qed
qed

lemma sound_convert_mp3_to_wav: "sound (convert_mp3_to_wav ext p)"
  unfolding convert_mp3_to_wav_def Let_def
  by (intro sound_seq quiet_sound quiet_lift sound_checked_run quiet_seq quiet_print quiet_return)
     (simp add: failure_reports_def)

lemma sound_convert_video_to_audio: "sound (convert_video_to_audio ext p)"
  unfolding convert_video_to_audio_def Let_def
  by (intro sound_seq quiet_sound quiet_lift sound_checked_run quiet_seq quiet_print quiet_return)
     (simp add: failure_reports_def)

lemma quiet_py_next_glob: "quiet (\<lambda>w. py_next (g (fs w)) w)"
  by (rule quietI) (auto simp: py_next_def raise_def return_def split: list.splits)

lemma sound_download_youtube_audio: "sound (download_youtube_audio ext file_dunder url)"
  unfolding download_youtube_audio_def Let_def
  by (intro sound_checked_run quiet_seq quiet_py_next_glob quiet_return)
     (simp add: failure_reports_def)

lemma sound_if: "sound a \<Longrightarrow> sound b \<Longrightarrow> sound (if c then a else b)"
  by simp

lemma sound_py_input: "sound (py_input prompt)"
  by (rule quiet_sound) (rule quiet_py_input)

lemma sound_return: "sound (return x)"
  by (rule quiet_sound) (rule quiet_return)

lemma sound_print: "sound (print s)"
  by (rule quiet_sound) (rule quiet_print)

lemma sound_sys_exit: "sound (sys_exit n)"
  by (rule quiet_sound) (rule quiet_sys_exit)

lemma sound_transcribe_file: "sound (transcribe_file ext keys p ls)"
  by (rule quiet_sound) (rule quiet_transcribe_file)

lemma sound_for_each:
  assumes "\<And>x. sound (body x)"
  shows "sound (for_each body xs)"
proof (induction xs)
  case Nil
  show ?case by (simp add: sound_return)
next
  case (Cons x xs)
  show ?case unfolding for_each.simps
    by (rule sound_seq) (rule assms, rule Cons.IH)
qed

lemma sound_for_each_listing:
  assumes "\<And>x. sound (body x)"
  shows "sound (\<lambda>w. for_each body (g w) w)"
proof (rule soundI)
  fix w r w'
  assume "for_each body (g w) w = (r, w')"
  with sound_for_each [of body "g w", OF assms]
  show "\<exists>evs. trace w' = trace w @ evs \<and> ((\<forall>e \<in> set evs. \<not> failed_run e) \<or> fatal r evs)"
    unfolding sound_def by blast
qed

lemma sound_directory_entry: "sound (directory_entry ext keys file)"
  unfolding directory_entry_def
  by (intro sound_if sound_seq sound_py_input sound_transcribe_file sound_return
        sound_convert_mp3_to_wav sound_convert_video_to_audio)

lemma sound_single_file: "sound (single_file ext keys p)"
  unfolding single_file_def
  by (intro sound_if sound_seq sound_py_input sound_transcribe_file sound_return
        sound_convert_mp3_to_wav sound_convert_video_to_audio)

lemma sound_main: "sound (main ext keys file_dunder)"
  unfolding main_def Let_def
  by (intro sound_if sound_seq sound_py_input sound_transcribe_file sound_print
        sound_sys_exit sound_download_youtube_audio sound_cond sound_for_each_listing
        sound_directory_entry sound_single_file)

lemma sound_program: "sound (program ext environ file_dunder)"
  unfolding program_def Let_def
  by (intro sound_if sound_seq sound_print sound_sys_exit sound_main)

lemma unique_failed_run:
  assumes "\<forall>e \<in> set pre. \<not> failed_run e" and "\<forall>e \<in> set suf. \<not> failed_run e"
    and "failed_run b" and "pre @ a # suf = pre' @ b # post"
  shows "pre' = pre \<and> b = a \<and> post = suf"
  using assms
proof (induction pre arbitrary: pre')
  case Nil
  then show ?case by (cases pre') auto
next
  case (Cons x xs)
  then show ?case by (cases pre') auto
qed

text \<open>
  C2. Whenever, in a run of the program, the transcoder or the downloader ends with a
  return code other than zero, the only things that happen afterwards are the record in
  the log and the message to the user, and the process exits with status 1. So the
  pipeline is not invoked after the failure, neither for that file nor for any other.
\<close>

theorem external_failure_is_fatal:
  assumes "trace (snd (program ext environ file_dunder w)) =
             trace w @ pre @ Run cmd (CompletedProcess rc) # post"
    and "rc \<noteq> 0"
  shows "fst (program ext environ file_dunder w) = Inl (SystemExit 1)
         \<and> (\<exists>prefix msg. (prefix, msg) \<in> set failure_reports
               \<and> post = [LogError prefix (CalledProcessError cmd rc), Print msg])
         \<and> filter is_Farrigh post = [] \<and> filter is_Dispatch post = []"
proof -
  obtain r w' where run: "program ext environ file_dunder w = (r, w')"
    by (cases "program ext environ file_dunder w")
  with sound_program [of ext environ file_dunder] obtain evs where
    evs: "trace w' = trace w @ evs" "(\<forall>e \<in> set evs. \<not> failed_run e) \<or> fatal r evs"
    unfolding sound_def by blast
  from assms(1) run evs(1) have dec: "evs = pre @ Run cmd (CompletedProcess rc) # post"
    by simp
  from assms(2) have bad: "failed_run (Run cmd (CompletedProcess rc))"
    by (simp add: failed_run_def)
  with dec have "\<not> (\<forall>e \<in> set evs. \<not> failed_run e)" by auto
  with evs(2) have "fatal r evs" by blast
  then obtain pre0 cmd0 rc0 prefix msg where
    r: "r = Inl (SystemExit 1)" and
    shape: "evs = pre0 @ [Run cmd0 (CompletedProcess rc0),
                          LogError prefix (CalledProcessError cmd0 rc0), Print msg]" and
    rest: "\<forall>e \<in> set pre0. \<not> failed_run e" "(prefix, msg) \<in> set failure_reports"
    unfolding fatal_def by blast
  have tail: "\<forall>e \<in> set [LogError prefix (CalledProcessError cmd0 rc0), Print msg]. \<not> failed_run e"
    by (simp add: failed_run_def)
  from shape dec have
    "pre0 @ Run cmd0 (CompletedProcess rc0) #
       [LogError prefix (CalledProcessError cmd0 rc0), Print msg] =
     pre @ Run cmd (CompletedProcess rc) # post"
    by simp
  from unique_failed_run [OF rest(1) tail bad this]
  have "Run cmd (CompletedProcess rc) = Run cmd0 (CompletedProcess rc0)"
    "post = [LogError prefix (CalledProcessError cmd0 rc0), Print msg]"
    by blast+
  with r rest(2) run show ?thesis by auto
qed

theorem external_failure_is_fatal_witness:
  "trace (snd (program tools_process_fails example_environ example_script
       \<lparr>fs = example_fs, stdin = [''L'', ''d/b.mp3'', ''EN''], trace = []\<rparr>)) =
     [Prompt ''Do you want to transcribe a YouTube video (Y) or a local file (L)? [Y/L]: '',
      Prompt ''Enter the path to the local file or directory: '',
      Run [''ffmpeg'', ''-i'', ''d/b.mp3'', ''d/b.wav''] (CompletedProcess 1),
      LogError ''Error converting MP3 to WAV: ''
        (CalledProcessError [''ffmpeg'', ''-i'', ''d/b.mp3'', ''d/b.wav''] 1),
      Print ''Error converting MP3 to WAV. Check the logs for more information.'']
   \<and> fst (program tools_process_fails example_environ example_script
       \<lparr>fs = example_fs, stdin = [''L'', ''d/b.mp3'', ''EN''], trace = []\<rparr>) = Inl (SystemExit 1)
   \<and> filter is_Farrigh
        [LogError ''Error converting MP3 to WAV: ''
           (CalledProcessError [''ffmpeg'', ''-i'', ''d/b.mp3'', ''d/b.wav''] 1),
         Print ''Error converting MP3 to WAV. Check the logs for more information.''] = []"
proof -
  let ?w = "\<lparr>fs = example_fs, stdin = [''L'', ''d/b.mp3'', ''EN''], trace = []\<rparr>"
  have t: "trace (snd (program tools_process_fails example_environ example_script ?w)) =
     [Prompt ''Do you want to transcribe a YouTube video (Y) or a local file (L)? [Y/L]: '',
      Prompt ''Enter the path to the local file or directory: '',
      Run [''ffmpeg'', ''-i'', ''d/b.mp3'', ''d/b.wav''] (CompletedProcess 1),
      LogError ''Error converting MP3 to WAV: ''
        (CalledProcessError [''ffmpeg'', ''-i'', ''d/b.mp3'', ''d/b.wav''] 1),
      Print ''Error converting MP3 to WAV. Check the logs for more information.'']"
    by code_simp
  then have h1: "trace (snd (program tools_process_fails example_environ example_script ?w)) =
     trace ?w @
     [Prompt ''Do you want to transcribe a YouTube video (Y) or a local file (L)? [Y/L]: '',
      Prompt ''Enter the path to the local file or directory: ''] @
      Run [''ffmpeg'', ''-i'', ''d/b.mp3'', ''d/b.wav''] (CompletedProcess 1) #
      [LogError ''Error converting MP3 to WAV: ''
        (CalledProcessError [''ffmpeg'', ''-i'', ''d/b.mp3'', ''d/b.wav''] 1),
       Print ''Error converting MP3 to WAV. Check the logs for more information.'']"
    by simp
  have h2: "(1::int) \<noteq> 0"
    by simp
  from external_failure_is_fatal [OF h1 h2] t show ?thesis
    by blast
qed

subsection \<open>Local mode on a directory\<close>

lemma suffix_name: "suffix f \<noteq> [] \<Longrightarrow> name f \<noteq> []"
  by (auto simp: suffix_def Let_def rfind_def split: if_splits)

lemma convertible_name: "convertible f \<Longrightarrow> name f \<noteq> []"
  by (rule suffix_name) (auto simp: convertible_def lower_def)

lemma with_suffix_wav: "name f \<noteq> [] \<Longrightarrow> with_suffix f ''.wav'' = Inr (wav_sibling f)"
  by (simp add: wav_sibling_def with_suffix_def Let_def)

lemma convert_mp3_to_wav_ok:
  assumes "\<forall>cmd f. fst (run_process ext cmd f) = CompletedProcess 0" and "name f \<noteq> []"
  shows "convert_mp3_to_wav ext f w =
           (Inr (wav_sibling f),
            w\<lparr>fs := snd (run_process ext [''ffmpeg'', ''-i'', str_path f, str_path (wav_sibling f)] (fs w)),
              trace := trace w @
                [Run [''ffmpeg'', ''-i'', str_path f, str_path (wav_sibling f)] (CompletedProcess 0),
                 Print (''MP3 converted to WAV: '' @ str_path (wav_sibling f))]\<rparr>)"
proof -
  let ?cmd = "[''ffmpeg'', ''-i'', str_path f, str_path (wav_sibling f)]"
  from assms(1) have "fst (run_process ext ?cmd (fs w)) = CompletedProcess 0"
    by blast
  then obtain f' where "run_process ext ?cmd (fs w) = (CompletedProcess 0, f')"
    by (cases "run_process ext ?cmd (fs w)") simp
  then show ?thesis
    by (simp add: convert_mp3_to_wav_def with_suffix_wav [OF assms(2)] action_defs
          subprocess_run_def Let_def)
qed

lemma convert_video_to_audio_ok:
  assumes "\<forall>cmd f. fst (run_process ext cmd f) = CompletedProcess 0" and "name f \<noteq> []"
  shows "convert_video_to_audio ext f w =
           (Inr (wav_sibling f),
            w\<lparr>fs := snd (run_process ext
                      [''ffmpeg'', ''-i'', str_path f, ''-vn'', ''-acodec'', ''pcm_s16le'',
                       ''-ar'', ''44100'', ''-ac'', ''2'', str_path (wav_sibling f)] (fs w)),
              trace := trace w @
                [Run [''ffmpeg'', ''-i'', str_path f, ''-vn'', ''-acodec'', ''pcm_s16le'',
                      ''-ar'', ''44100'', ''-ac'', ''2'', str_path (wav_sibling f)] (CompletedProcess 0),
                 Print (''Video converted to audio: '' @ str_path (wav_sibling f))]\<rparr>)"
proof -
  let ?cmd = "[''ffmpeg'', ''-i'', str_path f, ''-vn'', ''-acodec'', ''pcm_s16le'',
               ''-ar'', ''44100'', ''-ac'', ''2'', str_path (wav_sibling f)]"
  from assms(1) have "fst (run_process ext ?cmd (fs w)) = CompletedProcess 0"
    by blast
  then obtain f' where "run_process ext ?cmd (fs w) = (CompletedProcess 0, f')"
    by (cases "run_process ext ?cmd (fs w)") simp
  then show ?thesis
    by (simp add: convert_video_to_audio_def with_suffix_wav [OF assms(2)] action_defs
          subprocess_run_def Let_def)
qed

text \<open>Paths without a NUL byte: the string form has one exactly when the root or a
  component has one, and replacing the suffix by \<^verbatim>\<open>.wav\<close> introduces none.\<close>

lemma set_join_subset: "set (join sep xs) \<subseteq> set sep \<union> (\<Union>x \<in> set xs. set x)"
  by (induction sep xs rule: join.induct) auto

lemma set_part_join: "x \<in> set xs \<Longrightarrow> set x \<subseteq> set (join sep xs)"
  by (induction sep xs rule: join.induct) auto

lemma embedded_nul_iff:
  "embedded_nul p \<longleftrightarrow> CHR 0x00 \<in> set (root p) \<or> (\<exists>x \<in> set (parts p). CHR 0x00 \<in> set x)"
proof -
  have a: "CHR 0x00 \<in> set (join ''/'' (parts p)) \<longleftrightarrow> (\<exists>x \<in> set (parts p). CHR 0x00 \<in> set x)"
    using set_join_subset [of "''/''" "parts p"] set_part_join [of _ "parts p" "''/''"]
    by auto
  show ?thesis
  proof (cases "root p @ join ''/'' (parts p) = []")
    case True
    with a show ?thesis by (simp add: embedded_nul_def str_path_def)
  next
    case False
    with a show ?thesis by (auto simp: embedded_nul_def str_path_def Let_def)
  qed
qed

lemma wav_sibling_nul:
  assumes "\<not> embedded_nul f"
  shows "\<not> embedded_nul (wav_sibling f)"
proof (cases "name f = []")
  case True
  with assms show ?thesis by (simp add: wav_sibling_def with_suffix_def)
next
  case False
  then have ne: "parts f \<noteq> []" and nm: "name f = last (parts f)"
    by (auto simp: name_def split: if_splits)
  then have "name f \<in> set (parts f)" by simp
  with assms have n1: "CHR 0x00 \<notin> set (name f)" by (auto simp: embedded_nul_iff)
  then have n2: "CHR 0x00 \<notin> set (take k (name f))" for k
    by (auto dest: in_set_takeD)
  from assms have "\<forall>x \<in> set (butlast (parts f)). CHR 0x00 \<notin> set x" "CHR 0x00 \<notin> set (root f)"
    by (auto simp: embedded_nul_iff dest: in_set_butlastD)
  with False n1 n2 show ?thesis
    by (simp add: wav_sibling_def with_suffix_def Let_def embedded_nul_iff)
qed

lemma dispatch_target_nul: "\<not> embedded_nul f \<Longrightarrow> \<not> embedded_nul (dispatch_target f)"
  by (simp add: dispatch_target_def wav_sibling_nul)

text \<open>What one dispatch adds to the trace when the path has no NUL byte and the pipeline
  raises nothing that \<^verbatim>\<open>except Exception\<close> lets through.\<close>

lemma transcribe_file_events:
  assumes "\<forall>cfg f e. fst (farrigh ext cfg f) = Some e \<longrightarrow> is_Exception e"
    and "\<not> embedded_nul p"
  shows "\<exists>w' evs. transcribe_file ext keys p ls w = (Inr (), w')
           \<and> stdin w' = stdin w \<and> trace w' = trace w @ Dispatch p ls # evs
           \<and> filter (\<lambda>ev. is_Run ev \<or> is_Prompt ev \<or> is_Dispatch ev) evs = []"
proof (cases "probe (fs w) p")
  case False
  with assms(2) have "fst (is_wav_file p w) = Inr False" by (simp add: rejected_iff)
  from transcribe_file_skip [OF this] show ?thesis by simp
next
  case True
  with assms(2) have acc: "fst (is_wav_file p w) = Inr True" by (simp add: accepted_iff)
  show ?thesis
  proof (cases "truthy (dict_get keys (upper ls))")
    case False
    from transcribe_file_no_key [OF acc False] show ?thesis by simp
  next
    case key: True
    then obtain k where k: "dict_get keys (upper ls) = Some k" "k \<noteq> []"
      by (auto simp: truthy_def split: option.splits)
    obtain r f' where far: "farrigh ext (make_config p ls k) (fs w) = (r, f')"
      by (cases "farrigh ext (make_config p ls k) (fs w)")
    show ?thesis
    proof (cases r)
      case None
      with transcribe_file_run [OF acc k far] show ?thesis by simp
    next
      case (Some e)
      with assms(1) far have "is_Exception e" by (metis fst_conv)
      with Some transcribe_file_run [OF acc k far] show ?thesis by simp
    qed
  qed
qed

lemma directory_entry_skip: "\<not> dispatchable f \<Longrightarrow> directory_entry ext keys f w = (Inr (), w)"
  by (simp add: directory_entry_def dispatchable_def convertible_def return_def)

lemma directory_entry_dispatch:
  assumes ok: "\<forall>cmd f. fst (run_process ext cmd f) = CompletedProcess 0"
    and exc: "\<forall>cfg f e. fst (farrigh ext cfg f) = Some e \<longrightarrow> is_Exception e"
    and nul: "\<not> embedded_nul f"
    and d: "dispatchable f" and inp: "stdin w = l # ls"
  shows "\<exists>w' evs. directory_entry ext keys f w = (Inr (), w')
           \<and> stdin w' = ls \<and> trace w' = trace w @ evs
           \<and> filter (\<lambda>ev. is_Run ev \<or> is_Prompt ev \<or> is_Dispatch ev) evs = entry_steps f l"
proof -
  consider (wav) "lower (suffix f) = ''.wav''"
    | (mp3) "lower (suffix f) = ''.mp3''"
    | (video) "lower (suffix f) \<noteq> ''.mp3''" "lower (suffix f) \<in> set [''.mp4'', ''.mkv'', ''.avi'']"
    using d by (auto simp: dispatchable_def convertible_def)
  then show ?thesis
  proof cases
    case wav
    let ?w1 = "w\<lparr>stdin := ls, trace := trace w @ [Prompt (language_prompt f)]\<rparr>"
    from wav inp have eq: "directory_entry ext keys f w = transcribe_file ext keys f l ?w1"
      by (simp add: directory_entry_def seq_def py_input_def language_prompt_def)
    from transcribe_file_events [OF exc nul, where keys = keys and ls = l and w = ?w1]
      wav show ?thesis
      unfolding eq by (auto simp: convertible_def dispatch_target_def entry_steps_def)
  next
    case mp3
    then have nm: "name f \<noteq> []" by (intro convertible_name) (simp add: convertible_def)
    let ?cmd = "[''ffmpeg'', ''-i'', str_path f, str_path (wav_sibling f)]"
    let ?w1 = "w\<lparr>fs := snd (run_process ext ?cmd (fs w)), stdin := ls,
                 trace := trace w @
                   [Run ?cmd (CompletedProcess 0),
                    Print (''MP3 converted to WAV: '' @ str_path (wav_sibling f)),
                    Prompt (language_prompt f)]\<rparr>"
    from mp3 inp have eq: "directory_entry ext keys f w = transcribe_file ext keys (wav_sibling f) l ?w1"
      by (simp add: directory_entry_def seq_def py_input_def language_prompt_def
            convert_mp3_to_wav_ok [OF ok nm])
    from transcribe_file_events [OF exc wav_sibling_nul [OF nul],
        where keys = keys and ls = l and w = ?w1] mp3 show ?thesis
      unfolding eq
      by (auto simp: convertible_def dispatch_target_def conversion_command_def entry_steps_def)
  next
    case video
    then have nm: "name f \<noteq> []" by (intro convertible_name) (simp add: convertible_def)
    let ?cmd = "[''ffmpeg'', ''-i'', str_path f, ''-vn'', ''-acodec'', ''pcm_s16le'',
                 ''-ar'', ''44100'', ''-ac'', ''2'', str_path (wav_sibling f)]"
    let ?w1 = "w\<lparr>fs := snd (run_process ext ?cmd (fs w)), stdin := ls,
                 trace := trace w @
                   [Run ?cmd (CompletedProcess 0),
                    Print (''Video converted to audio: '' @ str_path (wav_sibling f)),
                    Prompt (language_prompt f)]\<rparr>"
    from video have nw: "lower (suffix f) \<noteq> ''.wav''" by auto
    from video nw inp have eq: "directory_entry ext keys f w = transcribe_file ext keys (wav_sibling f) l ?w1"
      by (simp add: directory_entry_def seq_def py_input_def language_prompt_def
            convert_video_to_audio_ok [OF ok nm])
    from transcribe_file_events [OF exc wav_sibling_nul [OF nul],
        where keys = keys and ls = l and w = ?w1] video nw show ?thesis
      unfolding eq
      by (auto simp: convertible_def dispatch_target_def conversion_command_def entry_steps_def)
  qed
qed

lemma convertible_dispatchable: "convertible f \<Longrightarrow> dispatchable f"
  by (simp add: dispatchable_def)

lemma for_each_directory_events:
  assumes ok: "\<forall>cmd f. fst (run_process ext cmd f) = CompletedProcess 0"
    and exc: "\<forall>cfg f e. fst (farrigh ext cfg f) = Some e \<longrightarrow> is_Exception e"
  shows "\<forall>f \<in> set entries. \<not> embedded_nul f \<Longrightarrow> stdin w = langs @ rest \<Longrightarrow>
         length langs = length (filter dispatchable entries) \<Longrightarrow>
         \<exists>w' evs. for_each (directory_entry ext keys) entries w = (Inr (), w')
           \<and> stdin w' = rest \<and> trace w' = trace w @ evs
           \<and> filter (\<lambda>ev. is_Run ev \<or> is_Prompt ev \<or> is_Dispatch ev) evs =
               concat (map2 entry_steps (filter dispatchable entries) langs)"
proof (induction entries arbitrary: w langs)
  case Nil
  then show ?case by (simp add: return_def)
next
  case (Cons f entries)
  from Cons.prems(1) have nul: "\<not> embedded_nul f" and nuls: "\<forall>f \<in> set entries. \<not> embedded_nul f"
    by simp_all
  show ?case
  proof (cases "dispatchable f")
    case False
    from False have step: "for_each (directory_entry ext keys) (f # entries) w =
                 for_each (directory_entry ext keys) entries w"
      by (intro for_each_Cons_returns directory_entry_skip)
    from Cons.prems False have "length langs = length (filter dispatchable entries)" by simp
    from Cons.IH [OF nuls Cons.prems(2) this] False show ?thesis
      unfolding step by simp
  next
    case True
    with Cons.prems obtain l ls where langs: "langs = l # ls"
      and len: "length ls = length (filter dispatchable entries)"
      by (cases langs) auto
    with Cons.prems have inp: "stdin w = l # (ls @ rest)" by simp
    from directory_entry_dispatch [OF ok exc nul True inp, of keys]
    obtain w1 evs1 where
      one: "directory_entry ext keys f w = (Inr (), w1)" "stdin w1 = ls @ rest"
        "trace w1 = trace w @ evs1"
        "filter (\<lambda>ev. is_Run ev \<or> is_Prompt ev \<or> is_Dispatch ev) evs1 = entry_steps f l"
      by blast
    from one(1) have step: "for_each (directory_entry ext keys) (f # entries) w =
                 for_each (directory_entry ext keys) entries w1"
      by (rule for_each_Cons_returns)
    from Cons.IH [OF nuls one(2) len] obtain w' evs2 where
      more: "for_each (directory_entry ext keys) entries w1 = (Inr (), w')" "stdin w' = rest"
        "trace w' = trace w1 @ evs2"
        "filter (\<lambda>ev. is_Run ev \<or> is_Prompt ev \<or> is_Dispatch ev) evs2 =
           concat (map2 entry_steps (filter dispatchable entries) ls)"
      by blast
    from one more have "trace w' = trace w @ (evs1 @ evs2)" by simp
    moreover from one more True langs have
      "filter (\<lambda>ev. is_Run ev \<or> is_Prompt ev \<or> is_Dispatch ev) (evs1 @ evs2) =
         concat (map2 entry_steps (filter dispatchable (f # entries)) langs)"
      by simp
    ultimately show ?thesis
      unfolding step using more(1,2) by blast
  qed
qed

text \<open>The conversions, the prompts and the dispatches, each kind taken alone.\<close>

lemma runs_of_steps:
  "length es = length ls \<Longrightarrow> \<forall>f \<in> set es. dispatchable f \<Longrightarrow>
   filter is_Run (concat (map2 entry_steps es ls)) =
     map (\<lambda>f. Run (conversion_command f) (CompletedProcess 0)) (filter convertible es)"
  by (induction es ls rule: list_induct2) (auto simp: entry_steps_def)

lemma prompts_of_steps:
  "length es = length ls \<Longrightarrow>
   filter is_Prompt (concat (map2 entry_steps es ls)) = map (\<lambda>f. Prompt (language_prompt f)) es"
  by (induction es ls rule: list_induct2) (auto simp: entry_steps_def)

lemma dispatches_of_steps:
  "length es = length ls \<Longrightarrow>
   filter is_Dispatch (concat (map2 entry_steps es ls)) =
     map2 (\<lambda>f l. Dispatch (dispatch_target f) l) es ls"
  by (induction es ls rule: list_induct2) (auto simp: entry_steps_def)

lemma filter_steps:
  "filter is_Run (filter (\<lambda>ev. is_Run ev \<or> is_Prompt ev \<or> is_Dispatch ev) evs) = filter is_Run evs"
  "filter is_Prompt (filter (\<lambda>ev. is_Run ev \<or> is_Prompt ev \<or> is_Dispatch ev) evs) = filter is_Prompt evs"
  "filter is_Dispatch (filter (\<lambda>ev. is_Run ev \<or> is_Prompt ev \<or> is_Dispatch ev) evs) = filter is_Dispatch evs"
  by (induction evs) auto

text \<open>
  C7. In local mode on a directory - with a transcoder that succeeds, a pipeline that
  raises nothing but exceptions, entries whose paths hold no NUL byte (no file system
  lists any other), and one line of input for every entry that is dispatched - the loop
  goes once through the immediate entries of the directory, in enumeration order.
  Entries are classified by their lower-cased suffix. For each \<^verbatim>\<open>.wav\<close> entry, the
  operator is prompted and the dispatcher is entered on the entry itself. For each
  \<^verbatim>\<open>.mp3\<close>, \<^verbatim>\<open>.mp4\<close>, \<^verbatim>\<open>.mkv\<close> and \<^verbatim>\<open>.avi\<close> entry, the transcoder runs first, then the operator is
  prompted, then the dispatcher is entered on the converted file. Every other entry is
  passed over without a conversion, a prompt or a dispatch. So the transcoder runs
  exactly for the convertible entries, and the dispatcher is entered exactly once for
  each dispatchable entry.
\<close>

theorem local_directory_mode:
  assumes "\<forall>cmd f. fst (run_process ext cmd f) = CompletedProcess 0"
    and "\<forall>cfg f e. fst (farrigh ext cfg f) = Some e \<longrightarrow> is_Exception e"
    and "stdin w = c # s # langs @ rest" and "upper (strip c) = ''L''"
    and "is_dir (fs w) (Path s)"
    and "\<forall>f \<in> set (glob_star (fs w) (Path s)). \<not> embedded_nul f"
    and "length langs = length (filter dispatchable (glob_star (fs w) (Path s)))"
  shows "\<exists>evs. fst (main ext keys file_dunder w) = Inr ()
           \<and> stdin (snd (main ext keys file_dunder w)) = rest
           \<and> trace (snd (main ext keys file_dunder w)) = trace w @
               [Prompt ''Do you want to transcribe a YouTube video (Y) or a local file (L)? [Y/L]: '',
                Prompt ''Enter the path to the local file or directory: ''] @ evs
           \<and> filter (\<lambda>ev. is_Run ev \<or> is_Prompt ev \<or> is_Dispatch ev) evs =
               concat (map2 entry_steps
                 (filter dispatchable (glob_star (fs w) (Path s))) langs)
           \<and> filter is_Run evs =
               map (\<lambda>f. Run (conversion_command f) (CompletedProcess 0))
                 (filter convertible (glob_star (fs w) (Path s)))
           \<and> filter is_Dispatch evs =
               map2 (\<lambda>f l. Dispatch (dispatch_target f) l)
                 (filter dispatchable (glob_star (fs w) (Path s))) langs
           \<and> filter is_Prompt evs =
               map (\<lambda>f. Prompt (language_prompt f))
                 (filter dispatchable (glob_star (fs w) (Path s)))"
proof -
  let ?w2 = "w\<lparr>stdin := langs @ rest, trace := trace w @
               [Prompt ''Do you want to transcribe a YouTube video (Y) or a local file (L)? [Y/L]: '',
                Prompt ''Enter the path to the local file or directory: '']\<rparr>"
  let ?entries = "glob_star (fs w) (Path s)"
  let ?ds = "filter dispatchable ?entries"
  from assms(3,4,5) have eq: "main ext keys file_dunder w =
      for_each (directory_entry ext keys) ?entries ?w2"
    by (simp add: main_def seq_def py_input_def Let_def)
  have "stdin ?w2 = langs @ rest" by simp
  from for_each_directory_events [OF assms(1,2,6) this assms(7), of keys]
  obtain w' evs where
    run: "for_each (directory_entry ext keys) ?entries ?w2 = (Inr (), w')" "stdin w' = rest"
      "trace w' = trace ?w2 @ evs"
    and steps: "filter (\<lambda>ev. is_Run ev \<or> is_Prompt ev \<or> is_Dispatch ev) evs =
                  concat (map2 entry_steps ?ds langs)"
    by blast
  have len: "length ?ds = length langs" using assms(7) by simp
  have all: "\<forall>f \<in> set ?ds. dispatchable f" by simp
  have conv: "filter convertible ?ds = filter convertible ?entries"
    by (auto intro!: filter_cong simp: convertible_dispatchable)
  from steps have "filter is_Run evs = filter is_Run (concat (map2 entry_steps ?ds langs))"
    by (metis filter_steps(1))
  with runs_of_steps [OF len all] conv have r: "filter is_Run evs =
      map (\<lambda>f. Run (conversion_command f) (CompletedProcess 0)) (filter convertible ?entries)"
    by simp
  from steps have "filter is_Dispatch evs = filter is_Dispatch (concat (map2 entry_steps ?ds langs))"
    by (metis filter_steps(3))
  with dispatches_of_steps [OF len] have d: "filter is_Dispatch evs =
      map2 (\<lambda>f l. Dispatch (dispatch_target f) l) ?ds langs"
    by simp
  from steps have "filter is_Prompt evs = filter is_Prompt (concat (map2 entry_steps ?ds langs))"
    by (metis filter_steps(2))
  with prompts_of_steps [OF len] have p: "filter is_Prompt evs =
      map (\<lambda>f. Prompt (language_prompt f)) ?ds"
    by simp
  from run steps r d p show ?thesis
    unfolding eq by auto
qed

theorem local_directory_mode_witness:
  "upper (strip ''L'') = ''L''
   \<and> is_dir example_fs (Path ''d'')
   \<and> glob_star example_fs (Path ''d'') =
       [PurePath [] [''d'', ''a.wav''], PurePath [] [''d'', ''b.mp3''], PurePath [] [''d'', ''c.mkv'']]
   \<and> fst (main tools_ok (LANGUAGE_API_KEYS example_environ) example_script
        \<lparr>fs = example_fs, stdin = [''L'', ''d'', ''en'', ''EN'', ''En''], trace = []\<rparr>) = Inr ()
   \<and> filter (\<lambda>ev. is_Run ev \<or> is_Prompt ev \<or> is_Dispatch ev)
        (trace (snd (main tools_ok (LANGUAGE_API_KEYS example_environ) example_script
        \<lparr>fs = example_fs, stdin = [''L'', ''d'', ''en'', ''EN'', ''En''], trace = []\<rparr>))) =
       [Prompt ''Do you want to transcribe a YouTube video (Y) or a local file (L)? [Y/L]: '',
        Prompt ''Enter the path to the local file or directory: '',
        Prompt ''Enter the language sign for a.wav (e.g., EN, AR, FR, JA): '',
        Dispatch (PurePath [] [''d'', ''a.wav'']) ''en'',
        Run [''ffmpeg'', ''-i'', ''d/b.mp3'', ''d/b.wav''] (CompletedProcess 0),
        Prompt ''Enter the language sign for b.mp3 (e.g., EN, AR, FR, JA): '',
        Dispatch (PurePath [] [''d'', ''b.wav'']) ''EN'',
        Run [''ffmpeg'', ''-i'', ''d/c.mkv'', ''-vn'', ''-acodec'', ''pcm_s16le'',
             ''-ar'', ''44100'', ''-ac'', ''2'', ''d/c.wav''] (CompletedProcess 0),
        Prompt ''Enter the language sign for c.mkv (e.g., EN, AR, FR, JA): '',
        Dispatch (PurePath [] [''d'', ''c.wav'']) ''En'']
   \<and> filter is_Run (trace (snd (main tools_ok (LANGUAGE_API_KEYS example_environ) example_script
        \<lparr>fs = example_fs, stdin = [''L'', ''d'', ''en'', ''EN'', ''En''], trace = []\<rparr>))) =
       [Run [''ffmpeg'', ''-i'', ''d/b.mp3'', ''d/b.wav''] (CompletedProcess 0),
        Run [''ffmpeg'', ''-i'', ''d/c.mkv'', ''-vn'', ''-acodec'', ''pcm_s16le'',
             ''-ar'', ''44100'', ''-ac'', ''2'', ''d/c.wav''] (CompletedProcess 0)]
   \<and> filter is_Dispatch (trace (snd (main tools_ok (LANGUAGE_API_KEYS example_environ) example_script
        \<lparr>fs = example_fs, stdin = [''L'', ''d'', ''en'', ''EN'', ''En''], trace = []\<rparr>))) =
       [Dispatch (PurePath [] [''d'', ''a.wav'']) ''en'',
        Dispatch (PurePath [] [''d'', ''b.wav'']) ''EN'',
        Dispatch (PurePath [] [''d'', ''c.wav'']) ''En'']
   \<and> length (filter is_Dispatch (trace (snd (main tools_ok (LANGUAGE_API_KEYS example_environ)
        example_script
        \<lparr>fs = example_fs, stdin = [''L'', ''d'', ''en'', ''EN'', ''En''], trace = []\<rparr>)))) = 3
   \<and> trace (snd (main tools_ok (LANGUAGE_API_KEYS example_environ) example_script
        \<lparr>fs = example_fs, stdin = [''L'', ''d'', ''en'', ''EN'', ''En''], trace = []\<rparr>)) =
       [Prompt ''Do you want to transcribe a YouTube video (Y) or a local file (L)? [Y/L]: '',
        Prompt ''Enter the path to the local file or directory: '',
        Prompt ''Enter the language sign for a.wav (e.g., EN, AR, FR, JA): '',
        Dispatch (PurePath [] [''d'', ''a.wav'']) ''en'',
        Print ''Transcribing file: d/a.wav'',
        Farrigh (make_config (PurePath [] [''d'', ''a.wav'']) ''en'' ''token-en'') None,
        Print ''Transcription completed. Check the output directory for the generated files.'',
        Run [''ffmpeg'', ''-i'', ''d/b.mp3'', ''d/b.wav''] (CompletedProcess 0),
        Print ''MP3 converted to WAV: d/b.wav'',
        Prompt ''Enter the language sign for b.mp3 (e.g., EN, AR, FR, JA): '',
        Dispatch (PurePath [] [''d'', ''b.wav'']) ''EN'',
        Print ''Transcribing file: d/b.wav'',
        Farrigh (make_config (PurePath [] [''d'', ''b.wav'']) ''EN'' ''token-en'') None,
        Print ''Transcription completed. Check the output directory for the generated files.'',
        Run [''ffmpeg'', ''-i'', ''d/c.mkv'', ''-vn'', ''-acodec'', ''pcm_s16le'',
             ''-ar'', ''44100'', ''-ac'', ''2'', ''d/c.wav''] (CompletedProcess 0),
        Print ''Video converted to audio: d/c.wav'',
        Prompt ''Enter the language sign for c.mkv (e.g., EN, AR, FR, JA): '',
        Dispatch (PurePath [] [''d'', ''c.wav'']) ''En'',
        Print ''Transcribing file: d/c.wav'',
        Farrigh (make_config (PurePath [] [''d'', ''c.wav'']) ''En'' ''token-en'') None,
        Print ''Transcription completed. Check the output directory for the generated files.'']"
proof -
  let ?w = "\<lparr>fs = example_fs, stdin = [''L'', ''d'', ''en'', ''EN'', ''En''], trace = []\<rparr>"
  let ?langs = "[''en'', ''EN'', ''En'']"
  let ?run = "main tools_ok (LANGUAGE_API_KEYS example_environ) example_script ?w"
  have h1: "\<forall>cmd f. fst (run_process tools_ok cmd f) = CompletedProcess 0"
    by (simp add: tools_ok_def)
  have h2: "\<forall>cfg f e. fst (farrigh tools_ok cfg f) = Some e \<longrightarrow> is_Exception e"
    by (simp add: tools_ok_def)
  have h3: "stdin ?w = ''L'' # ''d'' # ?langs @ []"
    by simp
  have h4: "upper (strip ''L'') = ''L''"
    by code_simp
  have d: "is_dir example_fs (Path ''d'')"
    by code_simp
  then have h5: "is_dir (fs ?w) (Path ''d'')"
    by simp
  have g: "glob_star example_fs (Path ''d'') =
       [PurePath [] [''d'', ''a.wav''], PurePath [] [''d'', ''b.mp3''], PurePath [] [''d'', ''c.mkv'']]"
    by code_simp
  have n: "\<not> embedded_nul (PurePath [] [''d'', ''a.wav''])"
    "\<not> embedded_nul (PurePath [] [''d'', ''b.mp3''])"
    "\<not> embedded_nul (PurePath [] [''d'', ''c.mkv''])"
    by code_simp+
  with g have h6: "\<forall>f \<in> set (glob_star (fs ?w) (Path ''d'')). \<not> embedded_nul f"
    by simp
  have "length ?langs = length (filter dispatchable (glob_star example_fs (Path ''d'')))"
    by code_simp
  then have h7: "length ?langs = length (filter dispatchable (glob_star (fs ?w) (Path ''d'')))"
    by simp
  have e0: "concat (map2 entry_steps (filter dispatchable (glob_star example_fs (Path ''d''))) ?langs) =
       [Prompt ''Enter the language sign for a.wav (e.g., EN, AR, FR, JA): '',
        Dispatch (PurePath [] [''d'', ''a.wav'']) ''en'',
        Run [''ffmpeg'', ''-i'', ''d/b.mp3'', ''d/b.wav''] (CompletedProcess 0),
        Prompt ''Enter the language sign for b.mp3 (e.g., EN, AR, FR, JA): '',
        Dispatch (PurePath [] [''d'', ''b.wav'']) ''EN'',
        Run [''ffmpeg'', ''-i'', ''d/c.mkv'', ''-vn'', ''-acodec'', ''pcm_s16le'',
             ''-ar'', ''44100'', ''-ac'', ''2'', ''d/c.wav''] (CompletedProcess 0),
        Prompt ''Enter the language sign for c.mkv (e.g., EN, AR, FR, JA): '',
        Dispatch (PurePath [] [''d'', ''c.wav'']) ''En'']"
    by code_simp
  have e1: "map (\<lambda>f. Run (conversion_command f) (CompletedProcess 0))
              (filter convertible (glob_star example_fs (Path ''d''))) =
            [Run [''ffmpeg'', ''-i'', ''d/b.mp3'', ''d/b.wav''] (CompletedProcess 0),
             Run [''ffmpeg'', ''-i'', ''d/c.mkv'', ''-vn'', ''-acodec'', ''pcm_s16le'',
                  ''-ar'', ''44100'', ''-ac'', ''2'', ''d/c.wav''] (CompletedProcess 0)]"
    by code_simp
  have e2: "map2 (\<lambda>f l. Dispatch (dispatch_target f) l)
              (filter dispatchable (glob_star example_fs (Path ''d''))) ?langs =
            [Dispatch (PurePath [] [''d'', ''a.wav'']) ''en'',
             Dispatch (PurePath [] [''d'', ''b.wav'']) ''EN'',
             Dispatch (PurePath [] [''d'', ''c.wav'']) ''En'']"
    by code_simp
  from local_directory_mode [OF h1 h2 h3 h4 h5 h6 h7,
      of "LANGUAGE_API_KEYS example_environ" example_script]
  obtain evs where
    r: "fst ?run = Inr ()"
    and t: "trace (snd ?run) =
              trace ?w @
              [Prompt ''Do you want to transcribe a YouTube video (Y) or a local file (L)? [Y/L]: '',
               Prompt ''Enter the path to the local file or directory: ''] @ evs"
    and steps: "filter (\<lambda>ev. is_Run ev \<or> is_Prompt ev \<or> is_Dispatch ev) evs =
                  concat (map2 entry_steps
                    (filter dispatchable (glob_star (fs ?w) (Path ''d''))) ?langs)"
    and runs: "filter is_Run evs =
                 map (\<lambda>f. Run (conversion_command f) (CompletedProcess 0))
                   (filter convertible (glob_star (fs ?w) (Path ''d'')))"
    and disp: "filter is_Dispatch evs =
                 map2 (\<lambda>f l. Dispatch (dispatch_target f) l)
                   (filter dispatchable (glob_star (fs ?w) (Path ''d''))) ?langs"
    by blast
  from t steps e0 have o: "filter (\<lambda>ev. is_Run ev \<or> is_Prompt ev \<or> is_Dispatch ev) (trace (snd ?run)) =
       [Prompt ''Do you want to transcribe a YouTube video (Y) or a local file (L)? [Y/L]: '',
        Prompt ''Enter the path to the local file or directory: '',
        Prompt ''Enter the language sign for a.wav (e.g., EN, AR, FR, JA): '',
        Dispatch (PurePath [] [''d'', ''a.wav'']) ''en'',
        Run [''ffmpeg'', ''-i'', ''d/b.mp3'', ''d/b.wav''] (CompletedProcess 0),
        Prompt ''Enter the language sign for b.mp3 (e.g., EN, AR, FR, JA): '',
        Dispatch (PurePath [] [''d'', ''b.wav'']) ''EN'',
        Run [''ffmpeg'', ''-i'', ''d/c.mkv'', ''-vn'', ''-acodec'', ''pcm_s16le'',
             ''-ar'', ''44100'', ''-ac'', ''2'', ''d/c.wav''] (CompletedProcess 0),
        Prompt ''Enter the language sign for c.mkv (e.g., EN, AR, FR, JA): '',
        Dispatch (PurePath [] [''d'', ''c.wav'']) ''En'']"
    by simp
  from t runs e1 have a: "filter is_Run (trace (snd ?run)) =
       [Run [''ffmpeg'', ''-i'', ''d/b.mp3'', ''d/b.wav''] (CompletedProcess 0),
        Run [''ffmpeg'', ''-i'', ''d/c.mkv'', ''-vn'', ''-acodec'', ''pcm_s16le'',
             ''-ar'', ''44100'', ''-ac'', ''2'', ''d/c.wav''] (CompletedProcess 0)]"
    by simp
  from t disp e2 have b: "filter is_Dispatch (trace (snd ?run)) =
       [Dispatch (PurePath [] [''d'', ''a.wav'']) ''en'',
        Dispatch (PurePath [] [''d'', ''b.wav'']) ''EN'',
        Dispatch (PurePath [] [''d'', ''c.wav'']) ''En'']"
    by simp
  from b have c: "length (filter is_Dispatch (trace (snd ?run))) = 3"
    by simp
  have full: "trace (snd ?run) =
       [Prompt ''Do you want to transcribe a YouTube video (Y) or a local file (L)? [Y/L]: '',
        Prompt ''Enter the path to the local file or directory: '',
        Prompt ''Enter the language sign for a.wav (e.g., EN, AR, FR, JA): '',
        Dispatch (PurePath [] [''d'', ''a.wav'']) ''en'',
        Print ''Transcribing file: d/a.wav'',
        Farrigh (make_config (PurePath [] [''d'', ''a.wav'']) ''en'' ''token-en'') None,
        Print ''Transcription completed. Check the output directory for the generated files.'',
        Run [''ffmpeg'', ''-i'', ''d/b.mp3'', ''d/b.wav''] (CompletedProcess 0),
        Print ''MP3 converted to WAV: d/b.wav'',
        Prompt ''Enter the language sign for b.mp3 (e.g., EN, AR, FR, JA): '',
        Dispatch (PurePath [] [''d'', ''b.wav'']) ''EN'',
        Print ''Transcribing file: d/b.wav'',
        Farrigh (make_config (PurePath [] [''d'', ''b.wav'']) ''EN'' ''token-en'') None,
        Print ''Transcription completed. Check the output directory for the generated files.'',
        Run [''ffmpeg'', ''-i'', ''d/c.mkv'', ''-vn'', ''-acodec'', ''pcm_s16le'',
             ''-ar'', ''44100'', ''-ac'', ''2'', ''d/c.wav''] (CompletedProcess 0),
        Print ''Video converted to audio: d/c.wav'',
        Prompt ''Enter the language sign for c.mkv (e.g., EN, AR, FR, JA): '',
        Dispatch (PurePath [] [''d'', ''c.wav'']) ''En'',
        Print ''Transcribing file: d/c.wav'',
        Farrigh (make_config (PurePath [] [''d'', ''c.wav'']) ''En'' ''token-en'') None,
        Print ''Transcription completed. Check the output directory for the generated files.'']"
    by code_simp
  from h4 d g r o a b c full show ?thesis by blast
qed

subsection \<open>Local mode on a single path\<close>




end
